theory Spec2Isabelle
  imports Complex_Main "HOL-Library.Log_Nat"
begin

section \<open>Python values, exceptions and the built-in operations the module uses\<close>

text \<open>
  The module \<^verbatim>\<open>api/index.py\<close> passes dictionaries around: the provider's JSON payload,
  the weather snapshot, the recommendation.  They are modelled as they are, as dynamically
  typed values.  A dictionary is an association list in insertion order with distinct keys.
  Python's \<^verbatim>\<open>int\<close> is unbounded.  Python's \<^verbatim>\<open>float\<close> is IEEE 754 binary64: a finite
  float is \<open>PFloat r\<close> with \<open>r\<close> its value, and the three floats that are not finite
  (\<^verbatim>\<open>json\<close> decodes them from \<^verbatim>\<open>Infinity\<close>, \<^verbatim>\<open>-Infinity\<close> and \<^verbatim>\<open>NaN\<close>) are values of their
  own.  The two zeros of binary64 are one value here.
\<close>

datatype pyval =
    PNone
  | PBool bool
  | PInt int
  | PFloat real
  | PInfinity
  | PNegInfinity
  | PNaN
  | PStr string
  | PList "pyval list"
  | PDict "(string \<times> pyval) list"

type_synonym dict = "(string \<times> pyval) list"

text \<open>
  Every exception the modelled operations raise.  All of them are subclasses of Python's
  \<^verbatim>\<open>Exception\<close>, \<^verbatim>\<open>HTTPException\<close> (FastAPI / Starlette) included, so a handler
  \<^verbatim>\<open>except Exception\<close> catches each of them.  \<^verbatim>\<open>RequestException\<close> stands for whatever
  \<^verbatim>\<open>requests.get\<close> raises, \<^verbatim>\<open>JSONDecodeError\<close> for what \<^verbatim>\<open>response.json()\<close> raises.
\<close>

datatype py_exception =
    KeyError string
  | TypeError string
  | OverflowError string
  | AttributeError string
  | RequestException string
  | JSONDecodeError string
  | HTTPException nat pyval

fun type_name :: "pyval \<Rightarrow> string" where
  "type_name PNone = ''NoneType''"
| "type_name (PBool _) = ''bool''"
| "type_name (PInt _) = ''int''"
| "type_name (PFloat _) = ''float''"
| "type_name PInfinity = ''float''"
| "type_name PNegInfinity = ''float''"
| "type_name PNaN = ''float''"
| "type_name (PStr _) = ''str''"
| "type_name (PList _) = ''list''"
| "type_name (PDict _) = ''dict''"

definition quoted :: "string \<Rightarrow> string" where
  "quoted s = [CHR 0x27] @ s @ [CHR 0x27]"

text \<open>\<^verbatim>\<open>obj[key]\<close> with a string key.\<close>

fun getitem :: "pyval \<Rightarrow> string \<Rightarrow> py_exception + pyval" where
  "getitem (PDict kvs) k = (case map_of kvs k of Some v \<Rightarrow> Inr v | None \<Rightarrow> Inl (KeyError k))"
| "getitem (PList _) k = Inl (TypeError ''list indices must be integers or slices, not str'')"
| "getitem (PStr _) k = Inl (TypeError (''string indices must be integers, not '' @ quoted ''str''))"
| "getitem v k = Inl (TypeError (quoted (type_name v) @ '' object is not subscriptable''))"

text \<open>\<^verbatim>\<open>obj.get(key, default)\<close>: only a dictionary has the method.\<close>

fun get_method :: "pyval \<Rightarrow> string \<Rightarrow> pyval \<Rightarrow> py_exception + pyval" where
  "get_method (PDict kvs) k d = Inr (case map_of kvs k of Some v \<Rightarrow> v | None \<Rightarrow> d)"
| "get_method v k d =
     Inl (AttributeError (quoted (type_name v) @ '' object has no attribute '' @ quoted ''get''))"

text \<open>Sequencing of steps that may raise: the first exception ends the block.\<close>

definition and_then :: "py_exception + 'a \<Rightarrow> ('a \<Rightarrow> py_exception + 'b) \<Rightarrow> py_exception + 'b" where
  "and_then m f = (case m of Inl e \<Rightarrow> Inl e | Inr x \<Rightarrow> f x)"

text \<open>
  Float arithmetic.  The result of an operation on floats is the exact result rounded to
  the nearest binary64 number, ties to the even significand (the default rounding of
  IEEE 754, which CPython's \<^verbatim>\<open>float\<close> uses).  \<open>binade x\<close> is the exponent of the power of two
  at or below \<open>\<bar>x\<bar>\<close>, for \<open>x\<close> other than 0; \<open>quantum x\<close> is the exponent of the unit in
  the last place of the binary64 numbers around \<open>x\<close>: 53 significant bits, and never below
  \<open>2 powi - 1074\<close>, the smallest positive float.  A rounded result of magnitude
  \<open>2 ^ 1024\<close> or more is an infinity.
\<close>

definition round_half_even :: "real \<Rightarrow> int" where
  "round_half_even z =
     (let f = \<lfloor>z\<rfloor>; d = z - of_int f
      in if d < 1 / 2 then f else if d > 1 / 2 then f + 1 else if even f then f else f + 1)"

definition binade :: "real \<Rightarrow> int" where
  "binade x =
     (if \<bar>x\<bar> \<ge> 1 then bitlen \<lfloor>\<bar>x\<bar>\<rfloor> - 1 else - bitlen (\<lceil>1 / \<bar>x\<bar>\<rceil> - 1))"

definition quantum :: "real \<Rightarrow> int" where
  "quantum x = max (binade x - 52) (- 1074)"

definition binary64 :: "real \<Rightarrow> real" where
  "binary64 x =
     (if x = 0 then 0
      else of_int (round_half_even (x / 2 powi quantum x)) * 2 powi quantum x)"

definition float_value :: "real \<Rightarrow> pyval" where
  "float_value z =
     (let r = binary64 z
      in if r \<ge> 2 ^ 1024 then PInfinity
         else if r \<le> - (2 ^ 1024) then PNegInfinity
         else PFloat r)"

text \<open>
  The conversion of an \<^verbatim>\<open>int\<close> operand to \<^verbatim>\<open>float\<close>, which precedes an operation of a float
  and an integer: correctly rounded, and an \<^verbatim>\<open>OverflowError\<close> beyond the range of the floats.
\<close>

definition float_of_int :: "int \<Rightarrow> py_exception + real" where
  "float_of_int n =
     (if \<bar>binary64 (of_int n)\<bar> \<ge> 2 ^ 1024
      then Inl (OverflowError ''int too large to convert to float'')
      else Inr (binary64 (of_int n)))"

text \<open>
  \<^verbatim>\<open>v - n\<close> and \<^verbatim>\<open>v + n\<close> for an integer literal \<open>n\<close>; \<^verbatim>\<open>bool\<close> is a subclass of \<^verbatim>\<open>int\<close>.
  Integer arithmetic is exact.  With a float \<open>v\<close> the integer is converted and the
  operation is the float one; an infinity and NaN stay what they are.  The float operand
  \<open>PFloat r\<close> is taken as \<open>binary64 r\<close>, which is \<open>r\<close> itself for the value of a float and
  lets a decimal numeral stand for the float that Python reads from it.
\<close>

fun sub_int :: "pyval \<Rightarrow> int \<Rightarrow> py_exception + pyval" where
  "sub_int (PInt i) n = Inr (PInt (i - n))"
| "sub_int (PBool b) n = Inr (PInt (of_bool b - n))"
| "sub_int (PFloat r) n = and_then (float_of_int n) (\<lambda>y. Inr (float_value (binary64 r - y)))"
| "sub_int PInfinity n = and_then (float_of_int n) (\<lambda>y. Inr PInfinity)"
| "sub_int PNegInfinity n = and_then (float_of_int n) (\<lambda>y. Inr PNegInfinity)"
| "sub_int PNaN n = and_then (float_of_int n) (\<lambda>y. Inr PNaN)"
| "sub_int v n =
     Inl (TypeError (''unsupported operand type(s) for -: '' @ quoted (type_name v) @ '' and ''
                     @ quoted ''int''))"

fun add_int :: "pyval \<Rightarrow> int \<Rightarrow> py_exception + pyval" where
  "add_int (PInt i) n = Inr (PInt (i + n))"
| "add_int (PBool b) n = Inr (PInt (of_bool b + n))"
| "add_int (PFloat r) n = and_then (float_of_int n) (\<lambda>y. Inr (float_value (binary64 r + y)))"
| "add_int PInfinity n = and_then (float_of_int n) (\<lambda>y. Inr PInfinity)"
| "add_int PNegInfinity n = and_then (float_of_int n) (\<lambda>y. Inr PNegInfinity)"
| "add_int PNaN n = and_then (float_of_int n) (\<lambda>y. Inr PNaN)"
| "add_int (PStr _) n = Inl (TypeError ''can only concatenate str (not \"int\") to str'')"
| "add_int (PList _) n = Inl (TypeError ''can only concatenate list (not \"int\") to list'')"
| "add_int v n =
     Inl (TypeError (''unsupported operand type(s) for +: '' @ quoted (type_name v) @ '' and ''
                     @ quoted ''int''))"

text \<open>
  The comparisons \<^verbatim>\<open>v > n\<close>, \<^verbatim>\<open>v < n\<close> and \<^verbatim>\<open>v >= n\<close> with an integer literal.  Python
  compares a float with an integer by value, without converting; every comparison with NaN
  is false.
\<close>

definition not_supported :: "string \<Rightarrow> pyval \<Rightarrow> py_exception" where
  "not_supported opr v =
     TypeError (quoted opr @ '' not supported between instances of '' @ quoted (type_name v)
                @ '' and '' @ quoted ''int'')"

fun gt_int :: "pyval \<Rightarrow> int \<Rightarrow> py_exception + bool" where
  "gt_int (PInt i) n = Inr (i > n)"
| "gt_int (PBool b) n = Inr (of_bool b > n)"
| "gt_int (PFloat r) n = Inr (r > of_int n)"
| "gt_int PInfinity n = Inr True"
| "gt_int PNegInfinity n = Inr False"
| "gt_int PNaN n = Inr False"
| "gt_int v n = Inl (not_supported ''>'' v)"

fun lt_int :: "pyval \<Rightarrow> int \<Rightarrow> py_exception + bool" where
  "lt_int (PInt i) n = Inr (i < n)"
| "lt_int (PBool b) n = Inr (of_bool b < n)"
| "lt_int (PFloat r) n = Inr (r < of_int n)"
| "lt_int PInfinity n = Inr False"
| "lt_int PNegInfinity n = Inr True"
| "lt_int PNaN n = Inr False"
| "lt_int v n = Inl (not_supported ''<'' v)"

fun ge_int :: "pyval \<Rightarrow> int \<Rightarrow> py_exception + bool" where
  "ge_int (PInt i) n = Inr (i \<ge> n)"
| "ge_int (PBool b) n = Inr (of_bool b \<ge> n)"
| "ge_int (PFloat r) n = Inr (r \<ge> of_int n)"
| "ge_int PInfinity n = Inr True"
| "ge_int PNegInfinity n = Inr False"
| "ge_int PNaN n = Inr False"
| "ge_int v n = Inl (not_supported ''>='' v)"

text \<open>
  \<^verbatim>\<open>max(n, v)\<close> and \<^verbatim>\<open>min(n, v)\<close>: the built-ins keep the first argument unless the second
  is strictly greater (smaller), which they find out by \<^verbatim>\<open>v > n\<close> (\<^verbatim>\<open>v < n\<close>).
\<close>

definition max_int :: "int \<Rightarrow> pyval \<Rightarrow> py_exception + pyval" where
  "max_int n v = (case gt_int v n of Inl e \<Rightarrow> Inl e | Inr b \<Rightarrow> Inr (if b then v else PInt n))"

definition min_int :: "int \<Rightarrow> pyval \<Rightarrow> py_exception + pyval" where
  "min_int n v = (case lt_int v n of Inl e \<Rightarrow> Inl e | Inr b \<Rightarrow> Inr (if b then v else PInt n))"

text \<open>\<^verbatim>\<open>s in container\<close> for a string \<open>s\<close>.\<close>

fun is_substring :: "string \<Rightarrow> string \<Rightarrow> bool" where
  "is_substring s [] = (s = [])"
| "is_substring s (c # cs) = (take (length s) (c # cs) = s \<or> is_substring s cs)"

fun contains_str :: "pyval \<Rightarrow> string \<Rightarrow> py_exception + bool" where
  "contains_str (PList xs) s = Inr (PStr s \<in> set xs)"
| "contains_str (PDict kvs) s = Inr (s \<in> set (map fst kvs))"
| "contains_str (PStr t) s = Inr (is_substring s t)"
| "contains_str v s = Inl (TypeError (''argument of type '' @ quoted (type_name v) @ '' is not iterable''))"

text \<open>
  Decimal digits of an integer, \<^verbatim>\<open>str(i)\<close>.  The text of every other value that is not a
  string (\<^verbatim>\<open>repr\<close> of a float, of \<^verbatim>\<open>None\<close>, of a container) is left to the environment, see
  \<open>py_repr\<close> below.
\<close>

fun digits :: "nat \<Rightarrow> string" where
  "digits n = (if n < 10 then [char_of (48 + n)] else digits (n div 10) @ [char_of (48 + n mod 10)])"

declare digits.simps [simp del]

definition str_int :: "int \<Rightarrow> string" where
  "str_int i = (if i < 0 then ''-'' @ digits (nat (- i)) else digits (nat i))"


section \<open>The environment: credential, network, text of values\<close>

text \<open>
  What the module takes from outside: the credential \<^verbatim>\<open>API_KEY\<close> read from the process
  environment (absent, or a string that may be empty), the behaviour of
  \<^verbatim>\<open>requests.get(url)\<close> (it raises, or returns a response whose \<^verbatim>\<open>.json()\<close> raises or
  returns the decoded payload), and Python's \<^verbatim>\<open>repr\<close> for the values whose text the model
  does not compute.
\<close>

datatype response = Response (response_json: "py_exception + pyval")

record environment =
  API_KEY :: "string option"
  requests_get :: "string \<Rightarrow> py_exception + response"
  py_repr :: "pyval \<Rightarrow> string"

definition optional_str :: "string option \<Rightarrow> pyval" where
  "optional_str s = (case s of None \<Rightarrow> PNone | Some t \<Rightarrow> PStr t)"

definition optional_float :: "real option \<Rightarrow> pyval" where
  "optional_float x = (case x of None \<Rightarrow> PNone | Some r \<Rightarrow> PFloat r)"

text \<open>\<^verbatim>\<open>str(v)\<close>, which is also how an f-string renders \<^verbatim>\<open>{v}\<close>.\<close>

definition py_str :: "environment \<Rightarrow> pyval \<Rightarrow> string" where
  "py_str env v = (case v of PStr s \<Rightarrow> s | PInt i \<Rightarrow> str_int i | _ \<Rightarrow> py_repr env v)"

text \<open>
  \<^verbatim>\<open>str(e)\<close> of an exception: the message; for \<^verbatim>\<open>KeyError\<close> the \<^verbatim>\<open>repr\<close> of the key; for
  Starlette's \<^verbatim>\<open>HTTPException\<close> the text \<^verbatim>\<open>f"{self.status_code}: {self.detail}"\<close>.
\<close>

fun str_exception :: "environment \<Rightarrow> py_exception \<Rightarrow> string" where
  "str_exception env (KeyError k) = quoted k"
| "str_exception env (TypeError m) = m"
| "str_exception env (OverflowError m) = m"
| "str_exception env (AttributeError m) = m"
| "str_exception env (RequestException m) = m"
| "str_exception env (JSONDecodeError m) = m"
| "str_exception env (HTTPException c d) = digits c @ '': '' @ py_str env d"

text \<open>Truthiness of an optional float and of an optional string, as \<^verbatim>\<open>if x\<close> tests them.\<close>

definition truthy_float :: "real option \<Rightarrow> bool" where
  "truthy_float x = (case x of None \<Rightarrow> False | Some r \<Rightarrow> r \<noteq> 0)"

definition truthy_str :: "string option \<Rightarrow> bool" where
  "truthy_str s = (case s of None \<Rightarrow> False | Some t \<Rightarrow> t \<noteq> [])"

section \<open>The reference table\<close>

record row =
  Soil_type :: string
  Crop_type :: string
  Avail_N :: int
  Avail_P :: int
  Exch_K :: int

text \<open>\<^verbatim>\<open>SAMPLE_DATA\<close>: the data frame, given by columns as in the source.\<close>

definition SAMPLE_DATA :: "row list" where
  "SAMPLE_DATA =
     map (\<lambda>(s, c, n, p, k). \<lparr>Soil_type = s, Crop_type = c, Avail_N = n, Avail_P = p, Exch_K = k\<rparr>)
       (zip [''Red'', ''Black'', ''Sandy'', ''Clay'', ''Loamy'']
       (zip [''Rice'', ''Cotton'', ''Maize'', ''Wheat'', ''Sugarcane'']
       (zip [250, 300, 200, 220, 280]
       (zip [8, 12, 6, 9, 11]
            [100, 120, 80, 90, 110]))))"

text \<open>
  \<^verbatim>\<open>SAMPLE_DATA[(SAMPLE_DATA['Soil_type'] == soil_type) & (SAMPLE_DATA['Crop_type'] == crop_type)]\<close>:
  the rows that match both keys, in table order.
\<close>

definition filtered :: "string \<Rightarrow> string \<Rightarrow> row list" where
  "filtered soil_type crop_type =
     filter (\<lambda>r. Soil_type r = soil_type \<and> Crop_type r = crop_type) SAMPLE_DATA"

section \<open>The weather adapter \<^verbatim>\<open>get_weather_data\<close>\<close>

text \<open>
  The argument of \<^verbatim>\<open>get_weather_data\<close>: the tuple \<^verbatim>\<open>(lat, lon)\<close>, or \<^verbatim>\<open>manual_location\<close>
  as the caller holds it.
\<close>

datatype location = Coordinates "real option" "real option" | Place "string option"

definition weather_url :: "environment \<Rightarrow> location \<Rightarrow> string" where
  "weather_url env loc =
     (case loc of
        Coordinates lat lon \<Rightarrow>
          ''http://api.openweathermap.org/data/2.5/weather?lat='' @ py_str env (optional_float lat)
          @ ''&lon='' @ py_str env (optional_float lon)
          @ ''&appid='' @ py_str env (optional_str (API_KEY env)) @ ''&units=metric''
      | Place name \<Rightarrow>
          ''http://api.openweathermap.org/data/2.5/weather?q='' @ py_str env (optional_str name)
          @ ''&appid='' @ py_str env (optional_str (API_KEY env)) @ ''&units=metric'')"

text \<open>
  The dictionary the \<^verbatim>\<open>try\<close> block returns, its entries evaluated in the order they are
  written; the first one that raises ends the block.
\<close>

definition snapshot_of :: "pyval \<Rightarrow> py_exception + dict" where
  "snapshot_of data =
     and_then (and_then (getitem data ''main'') (\<lambda>m. getitem m ''temp'')) (\<lambda>temperature.
     and_then (and_then (get_method data ''rain'' (PDict [])) (\<lambda>r. get_method r ''1h'' (PInt 0))) (\<lambda>rainfall.
     and_then (and_then (getitem data ''main'') (\<lambda>m. getitem m ''humidity'')) (\<lambda>humidity.
     and_then (and_then (getitem data ''wind'') (\<lambda>w. getitem w ''speed'')) (\<lambda>wind_speed.
     and_then (and_then (and_then (and_then (getitem data ''main'') (\<lambda>m. getitem m ''temp''))
                 (\<lambda>t. sub_int t 2)) (max_int 10)) (\<lambda>soil_temp.
     and_then (and_then (and_then (and_then (getitem data ''main'') (\<lambda>m. getitem m ''humidity''))
                 (\<lambda>h. add_int h 10)) (min_int 100)) (\<lambda>soil_moisture.
     Inr [(''status'', PStr ''ok''),
          (''temperature'', temperature),
          (''rainfall'', rainfall),
          (''humidity'', humidity),
          (''wind_speed'', wind_speed),
          (''soil_temp'', soil_temp),
          (''soil_moisture'', soil_moisture)]))))))"

definition try_block :: "environment \<Rightarrow> location \<Rightarrow> py_exception + dict" where
  "try_block env loc =
     and_then (requests_get env (weather_url env loc)) (\<lambda>response.
     and_then (response_json response) snapshot_of)"

text \<open>The function under the decorator: the \<^verbatim>\<open>try\<close> block and its \<^verbatim>\<open>except Exception\<close>.\<close>

definition get_weather_data_wrapped :: "environment \<Rightarrow> location \<Rightarrow> dict" where
  "get_weather_data_wrapped env loc =
     (case try_block env loc of
        Inr snapshot \<Rightarrow> snapshot
      | Inl e \<Rightarrow> [(''status'', PStr ''error''), (''message'', PStr (str_exception env e))])"

text \<open>
  The state of the process: the \<^verbatim>\<open>lru_cache(maxsize=100)\<close> of \<^verbatim>\<open>get_weather_data\<close>, most
  recently used entry first, and the URLs that \<^verbatim>\<open>requests.get\<close> was called with, oldest
  first.  A hit returns the stored snapshot and sends nothing; a miss runs the function
  (one request), stores the result and drops the least recently used entry beyond 100.
\<close>

record state =
  cache :: "(location \<times> dict) list"
  sent :: "string list"

definition get_weather_data :: "environment \<Rightarrow> location \<Rightarrow> state \<Rightarrow> dict \<times> state" where
  "get_weather_data env loc st =
     (case map_of (cache st) loc of
        Some snapshot \<Rightarrow>
          (snapshot, st\<lparr>cache := (loc, snapshot) # filter (\<lambda>kv. fst kv \<noteq> loc) (cache st)\<rparr>)
      | None \<Rightarrow>
          (let snapshot = get_weather_data_wrapped env loc
           in (snapshot, st\<lparr>cache := take 100 ((loc, snapshot) # cache st),
                              sent := sent st @ [weather_url env loc]\<rparr>)))"

section \<open>The engine \<^verbatim>\<open>fertilizer_recommendation\<close>\<close>

definition default_weather :: dict where
  "default_weather =
     [(''status'', PStr ''ok''),
      (''temperature'', PInt 25),
      (''rainfall'', PInt 0),
      (''humidity'', PInt 60),
      (''wind_speed'', PInt 2),
      (''soil_temp'', PInt 23),
      (''soil_moisture'', PInt 50)]"

text \<open>\<^verbatim>\<open>d.get(key, default)\<close> on a dictionary.\<close>

definition dict_get :: "dict \<Rightarrow> string \<Rightarrow> pyval \<Rightarrow> pyval" where
  "dict_get d k dflt = (case map_of d k of Some v \<Rightarrow> v | None \<Rightarrow> dflt)"

text \<open>The weather of a request: the \<^verbatim>\<open>if\<close> / \<^verbatim>\<open>else\<close> under "Get weather".\<close>

definition resolve_weather ::
  "environment \<Rightarrow> bool \<Rightarrow> real option \<Rightarrow> real option \<Rightarrow> string option \<Rightarrow> state \<Rightarrow> dict \<times> state" where
  "resolve_weather env use_my_location lat lon manual_location st =
     (if (use_my_location \<and> truthy_float lat \<and> truthy_float lon \<and> truthy_str (API_KEY env))
         \<or> (truthy_str manual_location \<and> truthy_str (API_KEY env))
      then (if use_my_location \<and> truthy_float lat \<and> truthy_float lon
            then get_weather_data env (Coordinates lat lon) st
            else get_weather_data env (Place manual_location) st)
      else (default_weather, st))"

text \<open>
  The list \<^verbatim>\<open>recommendation['fertilizers']\<close> starts empty and is appended to three times;
  the model builds the list first and stores it in the dictionary, which holds the same
  list object in the source.
\<close>

definition fertilizers_of :: "row \<Rightarrow> pyval list" where
  "fertilizers_of r =
     (let fertilizers = [];
          fertilizers = (if Avail_N r < 280 then fertilizers @ [PStr ''Urea''] else fertilizers);
          fertilizers = (if Avail_P r < 10 then fertilizers @ [PStr ''Single Super Phosphate'']
                         else fertilizers);
          fertilizers = (if Exch_K r < 110 then fertilizers @ [PStr ''Muriate of Potash'']
                         else fertilizers)
      in fertilizers)"

definition fertilizer_recommendation ::
  "environment \<Rightarrow> string \<Rightarrow> string \<Rightarrow> real \<Rightarrow> int \<Rightarrow> bool \<Rightarrow> real option \<Rightarrow> real option
     \<Rightarrow> string option \<Rightarrow> state \<Rightarrow> dict \<times> state" where
  "fertilizer_recommendation env soil_type crop_type land_size fallow_years
       use_my_location lat lon manual_location st =
     (case filtered soil_type crop_type of
        [] \<Rightarrow> ([(''error'', PStr ''No data for this soil-crop combination.'')], st)
      | r # _ \<Rightarrow>
          (case resolve_weather env use_my_location lat lon manual_location st of
             (weather, st') \<Rightarrow>
               if dict_get weather ''status'' PNone \<noteq> PStr ''ok''
               then ([(''error'', dict_get weather ''message'' (PStr ''Weather data unavailable''))],
                     st')
               else ([(''fertilizers'', PList (fertilizers_of r)),
                      (''land_size_m2'', PFloat land_size),
                      (''fallow_years'', PInt fallow_years),
                      (''weather'', PDict weather)], st')))"

section \<open>The message renderer \<^verbatim>\<open>generate_farmer_message\<close>\<close>

text \<open>
  The advisory lines.  The source strings start with an emoji; a string of the model is
  the UTF-8 encoding of the source string, so the emoji are the leading bytes.
\<close>

definition heavy_rain_line :: string where
  "heavy_rain_line =
     [CHR 0xF0, CHR 0x9F, CHR 0x9A, CHR 0xA8] @ '' **Heavy rain warning!** Avoid all field work today.''"

definition rain_expected_line :: string where
  "rain_expected_line =
     [CHR 0xF0, CHR 0x9F, CHR 0x8C, CHR 0xA7, CHR 0xEF, CHR 0xB8, CHR 0x8F]
     @ '' **Rain expected.** Delay fertilizer application.''"

definition dry_conditions_line :: string where
  "dry_conditions_line =
     [CHR 0xE2, CHR 0x98, CHR 0x80, CHR 0xEF, CHR 0xB8, CHR 0x8F]
     @ '' **Dry conditions.** Water crops if needed.''"

definition strong_winds_line :: string where
  "strong_winds_line =
     [CHR 0xF0, CHR 0x9F, CHR 0x92, CHR 0xA8] @ '' **Strong winds!** No spraying today.''"

definition breezy_line :: string where
  "breezy_line =
     [CHR 0xF0, CHR 0x9F, CHR 0x8C, CHR 0xAC, CHR 0xEF, CHR 0xB8, CHR 0x8F]
     @ '' **Breezy conditions.** Spray carefully.''"

definition cold_soil_line :: string where
  "cold_soil_line =
     [CHR 0xE2, CHR 0x9D, CHR 0x84, CHR 0xEF, CHR 0xB8, CHR 0x8F]
     @ '' **Cold soil.** Delay planting warm-season crops.''"

definition hot_soil_line :: string where
  "hot_soil_line =
     [CHR 0xF0, CHR 0x9F, CHR 0x94, CHR 0xA5] @ '' **Hot soil.** Water deeply in early morning.''"

definition waterlogged_line :: string where
  "waterlogged_line =
     [CHR 0xF0, CHR 0x9F, CHR 0x92, CHR 0xA7] @ '' **Waterlogged soil.** Improve drainage.''"

definition dry_soil_line :: string where
  "dry_soil_line =
     [CHR 0xF0, CHR 0x9F, CHR 0x8F, CHR 0x9C, CHR 0xEF, CHR 0xB8, CHR 0x8F]
     @ '' **Dry soil.** Irrigate soon.''"

definition urea_line :: string where
  "urea_line =
     [CHR 0xF0, CHR 0x9F, CHR 0x94, CHR 0xB5] @ '' **Apply Urea** (140kg/acre for nitrogen)''"

definition ssp_line :: string where
  "ssp_line =
     [CHR 0xF0, CHR 0x9F, CHR 0x9F, CHR 0xA2] @ '' **Apply SSP** (50kg/acre for phosphorus)''"

definition mop_line :: string where
  "mop_line =
     [CHR 0xF0, CHR 0x9F, CHR 0x9F, CHR 0xA3] @ '' **Apply MOP** (40kg/acre for potassium)''"

definition long_fallow_line :: string where
  "long_fallow_line =
     [CHR 0xE2, CHR 0x9A, CHR 0xA0, CHR 0xEF, CHR 0xB8, CHR 0x8F]
     @ '' **Long fallow period!** Plant green manure crops.''"

definition check_mark :: string where
  "check_mark = [CHR 0xE2, CHR 0x9C, CHR 0x85]"

definition seedling :: string where
  "seedling = [CHR 0xF0, CHR 0x9F, CHR 0x8C, CHR 0xB1]"

text \<open>
  The rainfall \<^verbatim>\<open>if\<close> / \<^verbatim>\<open>elif\<close> / \<^verbatim>\<open>else\<close>: the lines it appends to the empty
  \<^verbatim>\<open>weather_advice\<close>.  Each test reads \<^verbatim>\<open>weather['rainfall']\<close> again.
\<close>

definition rainfall_advice :: "pyval \<Rightarrow> py_exception + string list" where
  "rainfall_advice weather =
     and_then (and_then (getitem weather ''rainfall'') (\<lambda>r. gt_int r 10)) (\<lambda>heavy.
       if heavy then Inr [heavy_rain_line]
       else and_then (and_then (getitem weather ''rainfall'') (\<lambda>r. gt_int r 5)) (\<lambda>rain.
         if rain then Inr [rain_expected_line]
         else Inr [dry_conditions_line]))"

text \<open>The wind \<^verbatim>\<open>if\<close> / \<^verbatim>\<open>elif\<close>: the lines it appends.\<close>

definition wind_advice :: "pyval \<Rightarrow> py_exception + string list" where
  "wind_advice weather =
     and_then (and_then (getitem weather ''wind_speed'') (\<lambda>w. gt_int w 8)) (\<lambda>strong.
       if strong then Inr [strong_winds_line]
       else and_then (and_then (getitem weather ''wind_speed'') (\<lambda>w. gt_int w 5)) (\<lambda>breezy.
         if breezy then Inr [breezy_line]
         else Inr []))"

definition weather_advice :: "pyval \<Rightarrow> py_exception + string list" where
  "weather_advice weather =
     and_then (rainfall_advice weather) (\<lambda>rain_lines.
     and_then (wind_advice weather) (\<lambda>wind_lines.
     Inr (rain_lines @ wind_lines)))"

definition soil_temp_advice :: "pyval \<Rightarrow> py_exception + string list" where
  "soil_temp_advice weather =
     and_then (and_then (getitem weather ''soil_temp'') (\<lambda>t. lt_int t 15)) (\<lambda>cold.
       if cold then Inr [cold_soil_line]
       else and_then (and_then (getitem weather ''soil_temp'') (\<lambda>t. gt_int t 30)) (\<lambda>hot.
         if hot then Inr [hot_soil_line]
         else Inr []))"

definition soil_moisture_advice :: "pyval \<Rightarrow> py_exception + string list" where
  "soil_moisture_advice weather =
     and_then (and_then (getitem weather ''soil_moisture'') (\<lambda>m. gt_int m 85)) (\<lambda>wet.
       if wet then Inr [waterlogged_line]
       else and_then (and_then (getitem weather ''soil_moisture'') (\<lambda>m. lt_int m 40)) (\<lambda>dry.
         if dry then Inr [dry_soil_line]
         else Inr []))"

definition soil_advice :: "pyval \<Rightarrow> py_exception + string list" where
  "soil_advice weather =
     and_then (soil_temp_advice weather) (\<lambda>temp_lines.
     and_then (soil_moisture_advice weather) (\<lambda>moisture_lines.
     Inr (temp_lines @ moisture_lines)))"

definition fert_advice :: "pyval \<Rightarrow> py_exception + string list" where
  "fert_advice fertilizers =
     and_then (contains_str fertilizers ''Urea'') (\<lambda>urea.
     and_then (contains_str fertilizers ''Single Super Phosphate'') (\<lambda>ssp.
     and_then (contains_str fertilizers ''Muriate of Potash'') (\<lambda>mop.
     Inr ((if urea then [urea_line] else [])
          @ (if ssp then [ssp_line] else [])
          @ (if mop then [mop_line] else [])))))"

definition fallow_msg :: "pyval \<Rightarrow> py_exception + string" where
  "fallow_msg fallow_years =
     and_then (ge_int fallow_years 2) (\<lambda>long. Inr (if long then long_fallow_line else []))"

text \<open>\<^verbatim>\<open>chr(10).join(lines)\<close>.\<close>

fun join_lines :: "string list \<Rightarrow> string" where
  "join_lines [] = []"
| "join_lines [l] = l"
| "join_lines (l # m # ls) = l @ [CHR 0x0A] @ join_lines (m # ls)"

text \<open>The f-string: the template, line by line, with its replacement fields.\<close>

definition message_text ::
  "environment \<Rightarrow> pyval \<Rightarrow> pyval \<Rightarrow> pyval \<Rightarrow> pyval \<Rightarrow> string list \<Rightarrow> string list
     \<Rightarrow> string list \<Rightarrow> string \<Rightarrow> string" where
  "message_text env land_size fallow_years soil_temp soil_moisture
       weather_lines soil_lines fert_lines fallow =
     [CHR 0x0A]
     @ ''    '' @ seedling @ '' **FARMER ADVISORY** '' @ seedling @ [CHR 0x0A]
     @ ''    ========================'' @ [CHR 0x0A]
     @ ''    **FIELD CONDITIONS:**'' @ [CHR 0x0A]
     @ ''    - Land: '' @ py_str env land_size @ ''m'' @ [CHR 0xC2, CHR 0xB2]
       @ '' | Fallow: '' @ py_str env fallow_years @ '' year(s)'' @ [CHR 0x0A]
     @ ''    - Soil Temp: '' @ py_str env soil_temp @ [CHR 0xC2, CHR 0xB0] @ ''C | Moisture: ''
       @ py_str env soil_moisture @ ''%'' @ [CHR 0x0A]
     @ ''    '' @ [CHR 0x0A]
     @ ''    **WEATHER ALERTS:**'' @ [CHR 0x0A]
     @ ''    '' @ join_lines weather_lines @ [CHR 0x0A]
     @ ''    '' @ [CHR 0x0A]
     @ ''    **SOIL CARE:**'' @ [CHR 0x0A]
     @ ''    '' @ (if soil_lines \<noteq> [] then join_lines soil_lines
                   else check_mark @ '' Soil conditions normal'') @ [CHR 0x0A]
     @ ''    '' @ [CHR 0x0A]
     @ ''    **FERTILIZER PLAN:**'' @ [CHR 0x0A]
     @ ''    '' @ (if fert_lines \<noteq> [] then join_lines fert_lines
                   else check_mark @ '' No fertilizers needed now'') @ [CHR 0x0A]
     @ ''    '' @ [CHR 0x0A]
     @ ''    **SPECIAL NOTES:**'' @ [CHR 0x0A]
     @ ''    '' @ (if fallow \<noteq> [] then fallow else ''No critical issues detected'') @ [CHR 0x0A]
     @ ''    ''"

definition generate_farmer_message :: "environment \<Rightarrow> dict \<Rightarrow> py_exception + string" where
  "generate_farmer_message env recommendation =
     and_then (getitem (PDict recommendation) ''weather'') (\<lambda>weather.
     and_then (getitem (PDict recommendation) ''fertilizers'') (\<lambda>fertilizers.
     and_then (getitem (PDict recommendation) ''land_size_m2'') (\<lambda>land_size.
     and_then (getitem (PDict recommendation) ''fallow_years'') (\<lambda>fallow_years.
     and_then (weather_advice weather) (\<lambda>weather_lines.
     and_then (soil_advice weather) (\<lambda>soil_lines.
     and_then (fert_advice fertilizers) (\<lambda>fert_lines.
     and_then (fallow_msg fallow_years) (\<lambda>fallow.
     and_then (getitem weather ''soil_temp'') (\<lambda>soil_temp.
     and_then (getitem weather ''soil_moisture'') (\<lambda>soil_moisture.
     Inr (message_text env land_size fallow_years soil_temp soil_moisture
            weather_lines soil_lines fert_lines fallow)))))))))))"

section \<open>The endpoint \<^verbatim>\<open>GET /api/recommend\<close>\<close>

text \<open>\<^verbatim>\<open>d[key] = value\<close>: an existing key keeps its place, a new key goes last.\<close>

definition setitem :: "dict \<Rightarrow> string \<Rightarrow> pyval \<Rightarrow> dict" where
  "setitem d k v =
     (if k \<in> set (map fst d) then map (\<lambda>kv. if fst kv = k then (k, v) else kv) d
      else d @ [(k, v)])"

text \<open>
  The handler.  Its whole body is the \<^verbatim>\<open>try\<close> block, the \<^verbatim>\<open>raise HTTPException(status_code=400, ...)\<close>
  included; the \<^verbatim>\<open>except Exception\<close> clause turns whatever the block raised into
  \<^verbatim>\<open>HTTPException(status_code=500, detail=str(e))\<close>.  The framework answers a raised
  \<^verbatim>\<open>HTTPException(status_code=c, detail=d)\<close> with HTTP status \<open>c\<close> and the body
  \<^verbatim>\<open>{"detail": d}\<close>, and a returned dictionary with status 200.
\<close>

definition handler_try_block :: "environment \<Rightarrow> dict \<Rightarrow> py_exception + dict" where
  "handler_try_block env recommendation =
     (if ''error'' \<in> set (map fst recommendation)
      then and_then (getitem (PDict recommendation) ''error'') (\<lambda>detail.
             Inl (HTTPException 400 detail))
      else and_then (generate_farmer_message env recommendation) (\<lambda>farmer_message.
             Inr (setitem recommendation ''farmer_message'' (PStr farmer_message))))"

definition get_recommendation ::
  "environment \<Rightarrow> string \<Rightarrow> string \<Rightarrow> real \<Rightarrow> int \<Rightarrow> bool \<Rightarrow> real option \<Rightarrow> real option
     \<Rightarrow> string option \<Rightarrow> state \<Rightarrow> (py_exception + dict) \<times> state" where
  "get_recommendation env soil_type crop_type land_size fallow_years
       use_my_location lat lon manual_location st =
     (case fertilizer_recommendation env soil_type crop_type land_size fallow_years
             use_my_location lat lon manual_location st of
        (recommendation, st') \<Rightarrow>
          (case handler_try_block env recommendation of
             Inr r \<Rightarrow> (Inr r, st')
           | Inl e \<Rightarrow> (Inl (HTTPException 500 (PStr (str_exception env e))), st')))"

section \<open>Notions used to state the properties\<close>

text \<open>The value of a finite number: of an integer, a boolean or a finite float.\<close>

fun numeric :: "pyval \<Rightarrow> real option" where
  "numeric (PInt i) = Some (of_int i)"
| "numeric (PBool b) = Some (of_bool b)"
| "numeric (PFloat r) = Some r"
| "numeric v = None"

text \<open>
  The provider omits the hourly rainfall reading: the payload has no \<^verbatim>\<open>rain\<close> entry, or
  its \<^verbatim>\<open>rain\<close> object has no \<^verbatim>\<open>1h\<close> entry.
\<close>

definition omits_rainfall :: "pyval \<Rightarrow> bool" where
  "omits_rainfall data =
     (case data of
        PDict kvs \<Rightarrow>
          (case map_of kvs ''rain'' of
             None \<Rightarrow> True
           | Some (PDict r) \<Rightarrow> map_of r ''1h'' = None
           | Some _ \<Rightarrow> False)
      | _ \<Rightarrow> False)"

text \<open>A provider payload with the given temperature and humidity, and no rainfall entry.\<close>

definition sample_payload :: "int \<Rightarrow> int \<Rightarrow> pyval" where
  "sample_payload t h =
     PDict [(''main'', PDict [(''temp'', PInt t), (''humidity'', PInt h)]),
            (''wind'', PDict [(''speed'', PFloat 3.5)])]"

text \<open>The value the engine returns when no row matches, and the match of a row.\<close>

definition no_data_error :: dict where
  "no_data_error = [(''error'', PStr ''No data for this soil-crop combination.'')]"

definition matches :: "string \<Rightarrow> string \<Rightarrow> row \<Rightarrow> bool" where
  "matches soil_type crop_type r = (Soil_type r = soil_type \<and> Crop_type r = crop_type)"

text \<open>
  Concrete surroundings for the examples: an environment without credential and one with
  the credential \<open>key\<close>, both with an unreachable provider; an environment whose provider
  answers every request with a sample payload; a process that has fetched nothing yet.
\<close>

definition offline_environment :: environment where
  "offline_environment =
     \<lparr>API_KEY = None,
      requests_get = (\<lambda>url. Inl (RequestException ''unreachable'')),
      py_repr = (\<lambda>v. ''?'')\<rparr>"

definition keyed_environment :: environment where
  "keyed_environment =
     \<lparr>API_KEY = Some ''key'',
      requests_get = (\<lambda>url. Inl (RequestException ''unreachable'')),
      py_repr = (\<lambda>v. ''?'')\<rparr>"

definition online_environment :: environment where
  "online_environment =
     \<lparr>API_KEY = Some ''key'',
      requests_get = (\<lambda>url. Inr (Response (Inr (sample_payload 40 20)))),
      py_repr = (\<lambda>v. ''?'')\<rparr>"

definition fresh_state :: state where
  "fresh_state = \<lparr>cache = [], sent = []\<rparr>"

definition red_rice :: row where
  "red_rice = \<lparr>Soil_type = ''Red'', Crop_type = ''Rice'', Avail_N = 250, Avail_P = 8, Exch_K = 100\<rparr>"

text \<open>The fixed order of the fertilizer names, and the keys of a recommendation.\<close>

definition fertilizer_order :: "pyval list" where
  "fertilizer_order = [PStr ''Urea'', PStr ''Single Super Phosphate'', PStr ''Muriate of Potash'']"

definition recommendation_keys :: "string list" where
  "recommendation_keys = [''fertilizers'', ''land_size_m2'', ''fallow_years'', ''weather'']"

text \<open>
  The two shapes of a weather snapshot: an ok snapshot has the status \<open>ok\<close> and the six
  weather fields; an error snapshot has the status \<open>error\<close> and a message string.  A cache
  is well formed when every snapshot stored in it has one of the two shapes.
\<close>

definition snapshot_keys :: "string list" where
  "snapshot_keys =
     [''status'', ''temperature'', ''rainfall'', ''humidity'', ''wind_speed'', ''soil_temp'',
      ''soil_moisture'']"

definition is_ok_snapshot :: "dict \<Rightarrow> bool" where
  "is_ok_snapshot d = (map fst d = snapshot_keys \<and> map_of d ''status'' = Some (PStr ''ok''))"

definition is_error_snapshot :: "dict \<Rightarrow> bool" where
  "is_error_snapshot d =
     (map fst d = [''status'', ''message''] \<and> map_of d ''status'' = Some (PStr ''error'')
      \<and> (case map_of d ''message'' of Some (PStr msg) \<Rightarrow> True | _ \<Rightarrow> False))"

definition well_formed_snapshot :: "dict \<Rightarrow> bool" where
  "well_formed_snapshot d = (is_ok_snapshot d \<or> is_error_snapshot d)"

definition cache_well_formed :: "state \<Rightarrow> bool" where
  "cache_well_formed st = list_all (\<lambda>kv. well_formed_snapshot (snd kv)) (cache st)"

text \<open>A number: a value that Python's arithmetic and comparisons with an integer accept.\<close>

fun is_number :: "pyval \<Rightarrow> bool" where
  "is_number (PInt _) = True"
| "is_number (PBool _) = True"
| "is_number (PFloat _) = True"
| "is_number PInfinity = True"
| "is_number PNegInfinity = True"
| "is_number PNaN = True"
| "is_number _ = False"

text \<open>
  The rule \<^verbatim>\<open>soil_temperature = max(10, temperature - 2)\<close>, by the number type of the
  temperature reading.  For an integer reading the arithmetic is exact and the result an
  integer.  For a float reading \<open>x\<close> the difference is the float one, \<open>x - 2\<close> rounded to
  binary64, and the soil temperature has the value of the larger of 10 and that float;
  the two branches for a difference that is not finite are there for completeness, no
  float of binary64 reaches them.  An infinite reading gives what the comparison with 10
  gives, and NaN, which compares false with everything, gives 10.
\<close>

fun soil_temperature_rule :: "pyval \<Rightarrow> pyval \<Rightarrow> bool" where
  "soil_temperature_rule (PInt i) soil_temp = (soil_temp = PInt (max 10 (i - 2)))"
| "soil_temperature_rule (PBool b) soil_temp = (soil_temp = PInt (max 10 (of_bool b - 2)))"
| "soil_temperature_rule (PFloat x) soil_temp =
     (let z = binary64 (binary64 x - 2)
      in if z \<ge> 2 ^ 1024 then soil_temp = PInfinity
         else if z \<le> - (2 ^ 1024) then soil_temp = PInt 10
         else numeric soil_temp = Some (max 10 z))"
| "soil_temperature_rule PInfinity soil_temp = (soil_temp = PInfinity)"
| "soil_temperature_rule PNegInfinity soil_temp = (soil_temp = PInt 10)"
| "soil_temperature_rule PNaN soil_temp = (soil_temp = PInt 10)"
| "soil_temperature_rule _ soil_temp = False"

text \<open>The rule \<^verbatim>\<open>soil_moisture = min(100, humidity + 10)\<close>, in the same way.\<close>

fun soil_moisture_rule :: "pyval \<Rightarrow> pyval \<Rightarrow> bool" where
  "soil_moisture_rule (PInt i) soil_moisture = (soil_moisture = PInt (min 100 (i + 10)))"
| "soil_moisture_rule (PBool b) soil_moisture = (soil_moisture = PInt (min 100 (of_bool b + 10)))"
| "soil_moisture_rule (PFloat y) soil_moisture =
     (let z = binary64 (binary64 y + 10)
      in if z \<ge> 2 ^ 1024 then soil_moisture = PInt 100
         else if z \<le> - (2 ^ 1024) then soil_moisture = PNegInfinity
         else numeric soil_moisture = Some (min 100 z))"
| "soil_moisture_rule PInfinity soil_moisture = (soil_moisture = PInt 100)"
| "soil_moisture_rule PNegInfinity soil_moisture = (soil_moisture = PNegInfinity)"
| "soil_moisture_rule PNaN soil_moisture = (soil_moisture = PInt 100)"
| "soil_moisture_rule _ soil_moisture = False"

text \<open>
  A complete payload: it has \<^verbatim>\<open>main.temp\<close> and \<^verbatim>\<open>main.humidity\<close>, both numbers, it has
  \<^verbatim>\<open>wind.speed\<close>, and its \<^verbatim>\<open>rain\<close> entry, if there is one, is an object.
\<close>

definition complete_payload :: "pyval \<Rightarrow> bool" where
  "complete_payload data =
     (case getitem data ''main'' of
        Inl _ \<Rightarrow> False
      | Inr main \<Rightarrow>
          (case getitem main ''temp'' of Inl _ \<Rightarrow> False | Inr t \<Rightarrow> is_number t)
          \<and> (case getitem main ''humidity'' of Inl _ \<Rightarrow> False | Inr h \<Rightarrow> is_number h)
          \<and> (case getitem data ''wind'' of
                Inl _ \<Rightarrow> False
              | Inr wind \<Rightarrow> (case getitem wind ''speed'' of Inl _ \<Rightarrow> False | Inr _ \<Rightarrow> True))
          \<and> (case get_method data ''rain'' (PDict []) of Inr (PDict _) \<Rightarrow> True | _ \<Rightarrow> False))"

text \<open>
  A provider payload with float readings: the floats that Python reads from 28.34 (the
  temperature) and from 60.1 (the humidity), and 0.25 mm of rain in the last hour.
\<close>

definition float_28_34 :: real where
  "float_28_34 = 7977000839979991 / 281474976710656"

definition float_60_1 :: real where
  "float_60_1 = 8458323050155213 / 140737488355328"

definition float_payload :: pyval where
  "float_payload =
     PDict [(''main'', PDict [(''temp'', PFloat float_28_34), (''humidity'', PFloat float_60_1)]),
            (''wind'', PDict [(''speed'', PFloat 3.5)]),
            (''rain'', PDict [(''1h'', PFloat 0.25)])]"

text \<open>The comparison \<^verbatim>\<open>v > n\<close> of a number with an integer, as a truth value.\<close>

fun exceeds :: "pyval \<Rightarrow> int \<Rightarrow> bool" where
  "exceeds PInfinity n = True"
| "exceeds v n = (case numeric v of Some x \<Rightarrow> x > of_int n | None \<Rightarrow> False)"

text \<open>
  The three rainfall lines, and the one that the rainfall selects: the first that matches
  of rainfall above 10, rainfall above 5, anything else.
\<close>

definition rainfall_notices :: "string list" where
  "rainfall_notices = [heavy_rain_line, rain_expected_line, dry_conditions_line]"

definition rainfall_notice :: "pyval \<Rightarrow> string" where
  "rainfall_notice rainfall =
     (if exceeds rainfall 10 then heavy_rain_line
      else if exceeds rainfall 5 then rain_expected_line
      else dry_conditions_line)"

text \<open>
  The weather section of an advisory that shows the given lines: the heading, the lines,
  and the empty line and the heading that end the section.
\<close>

definition weather_section :: "string list \<Rightarrow> string" where
  "weather_section lines =
     ''    **WEATHER ALERTS:**'' @ [CHR 0x0A]
     @ ''    '' @ join_lines lines @ [CHR 0x0A]
     @ ''    '' @ [CHR 0x0A]
     @ ''    **SOIL CARE:**''"

text \<open>The four readings of a snapshot that the renderer compares with numbers are numbers.\<close>

definition numeric_readings :: "pyval \<Rightarrow> bool" where
  "numeric_readings weather =
     list_all (\<lambda>k. case getitem weather k of Inl _ \<Rightarrow> False | Inr v \<Rightarrow> is_number v)
       [''rainfall'', ''wind_speed'', ''soil_temp'', ''soil_moisture'']"

text \<open>
  The default snapshot with another rainfall, a recommendation of the engine around it, and
  the advisory for it whose weather section shows the one line given.
\<close>

definition sample_weather :: "pyval \<Rightarrow> pyval" where
  "sample_weather rainfall =
     PDict [(''status'', PStr ''ok''),
            (''temperature'', PInt 25),
            (''rainfall'', rainfall),
            (''humidity'', PInt 60),
            (''wind_speed'', PInt 2),
            (''soil_temp'', PInt 23),
            (''soil_moisture'', PInt 50)]"

definition sample_recommendation :: "pyval \<Rightarrow> dict" where
  "sample_recommendation rainfall =
     [(''fertilizers'', PList [PStr ''Urea'']),
      (''land_size_m2'', PFloat 1000),
      (''fallow_years'', PInt 1),
      (''weather'', sample_weather rainfall)]"

definition sample_message :: "string \<Rightarrow> string" where
  "sample_message line =
     message_text offline_environment (PFloat 1000) (PInt 1) (PInt 23) (PInt 50)
       [line] [] [urea_line] []"

text \<open>
  A provider that answers every request with a payload whose hourly rainfall is
  \<^verbatim>\<open>null\<close>: \<^verbatim>\<open>{"main": {"temp": 30, "humidity": 60}, "wind": {"speed": 3.5}, "rain": {"1h": null}}\<close>.
\<close>

definition null_rain_payload :: pyval where
  "null_rain_payload =
     PDict [(''main'', PDict [(''temp'', PInt 30), (''humidity'', PInt 60)]),
            (''wind'', PDict [(''speed'', PFloat 3.5)]),
            (''rain'', PDict [(''1h'', PNone)])]"

definition null_rain_environment :: environment where
  "null_rain_environment =
     \<lparr>API_KEY = Some ''key'',
      requests_get = (\<lambda>url. Inr (Response (Inr null_rain_payload))),
      py_repr = (\<lambda>v. ''?'')\<rparr>"

section \<open>Basic facts about the built-in operations\<close>

lemma and_then_Inr [simp]: "and_then (Inr x) f = f x"
  by (simp add: and_then_def)

lemma and_then_Inl [simp]: "and_then (Inl e) f = Inl e"
  by (simp add: and_then_def)

lemma and_then_eq_Inr: "and_then m f = Inr y \<longleftrightarrow> (\<exists>x. m = Inr x \<and> f x = Inr y)"
  by (cases m) simp_all

lemma snapshot_of_sample_cold_humid:
  "snapshot_of (sample_payload 5 95) =
     Inr [(''status'', PStr ''ok''), (''temperature'', PInt 5), (''rainfall'', PInt 0),
          (''humidity'', PInt 95), (''wind_speed'', PFloat 3.5), (''soil_temp'', PInt 10),
          (''soil_moisture'', PInt 100)]"
  by (simp add: snapshot_of_def sample_payload_def max_int_def min_int_def)

lemma snapshot_of_sample_hot_dry:
  "snapshot_of (sample_payload 40 20) =
     Inr [(''status'', PStr ''ok''), (''temperature'', PInt 40), (''rainfall'', PInt 0),
          (''humidity'', PInt 20), (''wind_speed'', PFloat 3.5), (''soil_temp'', PInt 38),
          (''soil_moisture'', PInt 30)]"
  by (simp add: snapshot_of_def sample_payload_def max_int_def min_int_def)

lemma get_method_rain_omitted:
  "omits_rainfall data \<Longrightarrow> get_method data ''rain'' (PDict []) = Inr r \<Longrightarrow>
     get_method r ''1h'' (PInt 0) = Inr (PInt 0)"
  by (cases data; cases r) (auto simp: omits_rainfall_def split: option.splits)

section \<open>The reference table and its lookup\<close>

lemma filter_Cons_find: "filter P xs = r # rest \<Longrightarrow> List.find P xs = Some r"
  by (induction xs) (auto split: if_splits)

lemma filter_Cons_member:
  assumes "filter P xs = r # rest"
  shows "r \<in> set xs \<and> P r"
proof -
  have "r \<in> set (filter P xs)" using assms by simp
  then show ?thesis by simp
qed

lemma filtered_eq_filter_matches: "filtered soil crop = filter (matches soil crop) SAMPLE_DATA"
  by (simp add: filtered_def matches_def [abs_def])

lemma filtered_Cons:
  assumes "filtered soil crop = r # rest"
  shows "r \<in> set SAMPLE_DATA" and "Soil_type r = soil" and "Crop_type r = crop"
    and "List.find (matches soil crop) SAMPLE_DATA = Some r"
  using assms filter_Cons_member [of "matches soil crop" SAMPLE_DATA r rest]
    filter_Cons_find [of "matches soil crop" SAMPLE_DATA r rest]
  by (simp_all add: filtered_eq_filter_matches matches_def)

lemma SAMPLE_DATA_rows:
  "SAMPLE_DATA =
     [\<lparr>Soil_type = ''Red'', Crop_type = ''Rice'', Avail_N = 250, Avail_P = 8, Exch_K = 100\<rparr>,
      \<lparr>Soil_type = ''Black'', Crop_type = ''Cotton'', Avail_N = 300, Avail_P = 12, Exch_K = 120\<rparr>,
      \<lparr>Soil_type = ''Sandy'', Crop_type = ''Maize'', Avail_N = 200, Avail_P = 6, Exch_K = 80\<rparr>,
      \<lparr>Soil_type = ''Clay'', Crop_type = ''Wheat'', Avail_N = 220, Avail_P = 9, Exch_K = 90\<rparr>,
      \<lparr>Soil_type = ''Loamy'', Crop_type = ''Sugarcane'', Avail_N = 280, Avail_P = 11, Exch_K = 110\<rparr>]"
  by (simp add: SAMPLE_DATA_def)

lemma filter_key_unique:
  "distinct (map f xs) \<Longrightarrow> r \<in> set xs \<Longrightarrow> filter (\<lambda>x. f x = f r) xs = [r]"
proof (induction xs)
  case Nil
  then show ?case by simp
next
  case (Cons a xs)
  show ?case
  proof (cases "r = a")
    case True
    from Cons.prems(1) have "\<forall>x \<in> set xs. f x \<noteq> f a" by (metis distinct.simps(2) imageI list.simps(9) set_map)
    then have "filter (\<lambda>x. f x = f a) xs = []" by (simp add: filter_empty_conv)
    with True show ?thesis by simp
  next
    case False
    with Cons.prems have "r \<in> set xs" and "f a \<noteq> f r" by auto
    with Cons show ?thesis by simp
  qed
qed

lemma SAMPLE_DATA_keys_distinct:
  "distinct (map (\<lambda>r. (Soil_type r, Crop_type r)) SAMPLE_DATA)"
  by (simp add: SAMPLE_DATA_rows)

lemma filtered_row:
  assumes "r \<in> set SAMPLE_DATA"
  shows "filtered (Soil_type r) (Crop_type r) = [r]"
  using filter_key_unique [OF SAMPLE_DATA_keys_distinct assms]
  by (simp add: filtered_def)

lemma filtered_Red_Rice:
  "filtered ''Red'' ''Rice'' =
     [\<lparr>Soil_type = ''Red'', Crop_type = ''Rice'', Avail_N = 250, Avail_P = 8, Exch_K = 100\<rparr>]"
  by (simp add: SAMPLE_DATA_rows filtered_def)

lemma filtered_lower_case: "filtered ''red'' ''rice'' = []"
  by (simp add: SAMPLE_DATA_rows filtered_def)

text \<open>
  Claim C5.  Lookup is the exact, case-sensitive match on both keys.  For every row of the
  table, the rows matching its soil and crop type are that row alone, with its stored
  values; whenever some row matches, the engine works on the first matching row of the
  table; and for every pair that no row matches, the engine returns the error
  "No data for this soil-crop combination." and leaves the state as it was.
\<close>

theorem table_lookup:
  "(r \<in> set SAMPLE_DATA \<longrightarrow> filtered (Soil_type r) (Crop_type r) = [r])
   \<and> (filtered soil crop = r' # rest \<longrightarrow>
        r' \<in> set SAMPLE_DATA \<and> Soil_type r' = soil \<and> Crop_type r' = crop
        \<and> List.find (matches soil crop) SAMPLE_DATA = Some r')
   \<and> ((\<exists>x \<in> set SAMPLE_DATA. matches soil crop x) \<longrightarrow> filtered soil crop \<noteq> [])
   \<and> (\<not> (\<exists>x \<in> set SAMPLE_DATA. matches soil crop x) \<longrightarrow>
        filtered soil crop = []
        \<and> fertilizer_recommendation env soil crop land_size fallow_years
            use_my_location lat lon manual_location st = (no_data_error, st))"
proof -
  have "filtered soil crop = [] \<longleftrightarrow> \<not> (\<exists>x \<in> set SAMPLE_DATA. matches soil crop x)"
    by (simp add: filtered_eq_filter_matches filter_empty_conv)
  then show ?thesis
    using filtered_Cons [of soil crop r' rest] filtered_row [of r]
    by (auto simp: fertilizer_recommendation_def no_data_error_def)
qed

theorem table_lookup_witness:
  "red_rice \<in> set SAMPLE_DATA
   \<and> filtered ''Red'' ''Rice'' = [red_rice]
   \<and> List.find (matches ''Red'' ''Rice'') SAMPLE_DATA = Some red_rice
   \<and> Avail_N red_rice = 250 \<and> Avail_P red_rice = 8 \<and> Exch_K red_rice = 100
   \<and> \<not> (\<exists>x \<in> set SAMPLE_DATA. matches ''red'' ''rice'' x)
   \<and> fertilizer_recommendation offline_environment ''red'' ''rice'' 1000 1 False None None None
         fresh_state = (no_data_error, fresh_state)"
proof -
  have present: "red_rice \<in> set SAMPLE_DATA"
    by (simp add: SAMPLE_DATA_rows red_rice_def)
  have absent: "\<not> (\<exists>x \<in> set SAMPLE_DATA. matches ''red'' ''rice'' x)"
    by (simp add: SAMPLE_DATA_rows matches_def)
  have keys: "Soil_type red_rice = ''Red''" "Crop_type red_rice = ''Rice''"
    by (simp_all add: red_rice_def)
  from table_lookup [of red_rice "''Red''" "''Rice''" red_rice "[]"] present keys
  have "filtered ''Red'' ''Rice'' = [red_rice]"
    and "List.find (matches ''Red'' ''Rice'') SAMPLE_DATA = Some red_rice"
    by simp_all
  moreover from table_lookup [of red_rice "''red''" "''rice''" red_rice "[]" offline_environment
      1000 1 False None None None fresh_state] absent
  have "fertilizer_recommendation offline_environment ''red'' ''rice'' 1000 1 False None None None
          fresh_state = (no_data_error, fresh_state)"
    by blast
  ultimately show ?thesis
    using present absent by (simp add: red_rice_def)
qed

section \<open>The engine\<close>

lemma fertilizers_of_eq:
  "fertilizers_of r =
     (if Avail_N r < 280 then [PStr ''Urea''] else [])
     @ (if Avail_P r < 10 then [PStr ''Single Super Phosphate''] else [])
     @ (if Exch_K r < 110 then [PStr ''Muriate of Potash''] else [])"
  by (simp add: fertilizers_of_def)

lemma fertilizers_of_members:
  "PStr ''Urea'' \<in> set (fertilizers_of r) \<longleftrightarrow> Avail_N r < 280"
  "PStr ''Single Super Phosphate'' \<in> set (fertilizers_of r) \<longleftrightarrow> Avail_P r < 10"
  "PStr ''Muriate of Potash'' \<in> set (fertilizers_of r) \<longleftrightarrow> Exch_K r < 110"
  by (simp_all add: fertilizers_of_eq)

lemma fertilizers_of_order:
  "fertilizers_of r = filter (\<lambda>f. f \<in> set (fertilizers_of r)) fertilizer_order"
  by (simp add: fertilizers_of_eq fertilizer_order_def)

lemma fertilizer_recommendation_ok:
  assumes "filtered soil crop = r # rest"
    and "resolve_weather env u lat lon m st = (weather, st')"
    and "dict_get weather ''status'' PNone = PStr ''ok''"
  shows "fertilizer_recommendation env soil crop land fallow u lat lon m st =
           ([(''fertilizers'', PList (fertilizers_of r)),
             (''land_size_m2'', PFloat land),
             (''fallow_years'', PInt fallow),
             (''weather'', PDict weather)], st')"
  using assms by (simp add: fertilizer_recommendation_def)

lemma fertilizer_recommendation_weather_error:
  assumes "filtered soil crop = r # rest"
    and "resolve_weather env u lat lon m st = (weather, st')"
    and "dict_get weather ''status'' PNone \<noteq> PStr ''ok''"
  shows "fertilizer_recommendation env soil crop land fallow u lat lon m st =
           ([(''error'', dict_get weather ''message'' (PStr ''Weather data unavailable''))], st')"
  using assms by (simp add: fertilizer_recommendation_def)

lemma fertilizer_recommendation_no_data:
  assumes "filtered soil crop = []"
  shows "fertilizer_recommendation env soil crop land fallow u lat lon m st = (no_data_error, st)"
  using assms by (simp add: fertilizer_recommendation_def no_data_error_def)

lemma resolve_weather_no_key:
  assumes "\<not> truthy_str (API_KEY env)"
  shows "resolve_weather env u lat lon m st = (default_weather, st)"
  using assms by (simp add: resolve_weather_def)

lemma resolve_weather_offline:
  "resolve_weather offline_environment u lat lon m st = (default_weather, st)"
  by (simp add: resolve_weather_no_key offline_environment_def truthy_str_def)

lemma default_weather_status: "dict_get default_weather ''status'' PNone = PStr ''ok''"
  by (simp add: default_weather_def dict_get_def)

text \<open>
  Claim C1.  For every request whose soil and crop type match a row \<open>r\<close> of the table (the
  first match) and whose resolved weather snapshot has status ok, the engine returns the
  recommendation, and its fertilizer list contains "Urea" exactly if the row's nitrogen is
  below 280, "Single Super Phosphate" exactly if its phosphorus is below 10, "Muriate of
  Potash" exactly if its potassium is below 110, always in that order: the list is the fixed
  order restricted to the names included.
\<close>

theorem fertilizer_list:
  assumes "filtered soil crop = r # rest"
    and "resolve_weather env u lat lon m st = (weather, st')"
    and "dict_get weather ''status'' PNone = PStr ''ok''"
  shows "\<exists>fs. fertilizer_recommendation env soil crop land fallow u lat lon m st =
                 ([(''fertilizers'', PList fs),
                   (''land_size_m2'', PFloat land),
                   (''fallow_years'', PInt fallow),
                   (''weather'', PDict weather)], st')
              \<and> (PStr ''Urea'' \<in> set fs \<longleftrightarrow> Avail_N r < 280)
              \<and> (PStr ''Single Super Phosphate'' \<in> set fs \<longleftrightarrow> Avail_P r < 10)
              \<and> (PStr ''Muriate of Potash'' \<in> set fs \<longleftrightarrow> Exch_K r < 110)
              \<and> fs = filter (\<lambda>f. f \<in> set fs) fertilizer_order
              \<and> r \<in> set SAMPLE_DATA \<and> Soil_type r = soil \<and> Crop_type r = crop"
proof -
  have "fertilizers_of r = filter (\<lambda>f. f \<in> set (fertilizers_of r)) fertilizer_order"
    by (rule fertilizers_of_order)
  then show ?thesis
    using fertilizer_recommendation_ok [OF assms] fertilizers_of_members [of r]
      filtered_Cons(1-3) [OF assms(1)]
    by blast
qed

theorem fertilizer_list_witness:
  "filtered ''Red'' ''Rice'' = [red_rice]
   \<and> resolve_weather offline_environment False None None None fresh_state
       = (default_weather, fresh_state)
   \<and> dict_get default_weather ''status'' PNone = PStr ''ok''
   \<and> fertilizer_recommendation offline_environment ''Red'' ''Rice'' 1000 1 False None None None
         fresh_state =
       ([(''fertilizers'', PList [PStr ''Urea'', PStr ''Single Super Phosphate'',
                                   PStr ''Muriate of Potash'']),
         (''land_size_m2'', PFloat 1000),
         (''fallow_years'', PInt 1),
         (''weather'', PDict default_weather)], fresh_state)"
proof -
  have f: "filtered ''Red'' ''Rice'' = red_rice # []"
    by (simp add: filtered_Red_Rice red_rice_def)
  have w: "resolve_weather offline_environment False None None None fresh_state
             = (default_weather, fresh_state)"
    by (rule resolve_weather_offline)
  from fertilizer_list [OF f w default_weather_status, of 1000 1] obtain fs where
      res: "fertilizer_recommendation offline_environment ''Red'' ''Rice'' 1000 1 False None None
              None fresh_state =
            ([(''fertilizers'', PList fs), (''land_size_m2'', PFloat 1000),
              (''fallow_years'', PInt 1), (''weather'', PDict default_weather)], fresh_state)"
    and u: "PStr ''Urea'' \<in> set fs \<longleftrightarrow> Avail_N red_rice < 280"
    and s: "PStr ''Single Super Phosphate'' \<in> set fs \<longleftrightarrow> Avail_P red_rice < 10"
    and p: "PStr ''Muriate of Potash'' \<in> set fs \<longleftrightarrow> Exch_K red_rice < 110"
    and o: "fs = filter (\<lambda>f. f \<in> set fs) fertilizer_order"
    by blast
  from u s p have "PStr ''Urea'' \<in> set fs" "PStr ''Single Super Phosphate'' \<in> set fs"
    "PStr ''Muriate of Potash'' \<in> set fs"
    by (simp_all add: red_rice_def)
  with o have "fs = fertilizer_order"
    by (simp add: fertilizer_order_def)
  with res f w show ?thesis
    by (simp add: fertilizer_order_def default_weather_status)
qed

lemma default_weather_literal:
  "default_weather =
     [(''status'', PStr ''ok''), (''temperature'', PInt 25), (''rainfall'', PInt 0),
      (''humidity'', PInt 60), (''wind_speed'', PInt 2), (''soil_temp'', PInt 23),
      (''soil_moisture'', PInt 50)]"
  by (simp add: default_weather_def)

lemma engine_with_default_weather:
  assumes "resolve_weather env u lat lon m st = (default_weather, st)"
  shows "fertilizer_recommendation env soil crop land fallow u lat lon m st =
           (case filtered soil crop of
              [] \<Rightarrow> no_data_error
            | r # _ \<Rightarrow> [(''fertilizers'', PList (fertilizers_of r)),
                        (''land_size_m2'', PFloat land),
                        (''fallow_years'', PInt fallow),
                        (''weather'', PDict default_weather)], st)"
  using assms default_weather_status
  by (simp add: fertilizer_recommendation_def no_data_error_def split: list.splits)

text \<open>
  Claim C4.  The dictionary the engine returns has the four keys of a recommendation
  (fertilizers, land_size_m2, fallow_years, weather) exactly when a row matches and the
  resolved weather snapshot has status ok; in every other case it has the single key
  \<open>error\<close>.  So a recommendation is built only under both conditions, and nothing in
  between is ever returned.  The witness covers a recommendation, a request that no row
  matches, and a request whose weather fetch fails.
\<close>

theorem all_or_nothing:
  "map fst (fst (fertilizer_recommendation env soil crop land fallow u lat lon m st)) =
     (if filtered soil crop \<noteq> []
         \<and> dict_get (fst (resolve_weather env u lat lon m st)) ''status'' PNone = PStr ''ok''
      then recommendation_keys else [''error''])"
  by (cases "resolve_weather env u lat lon m st")
     (simp add: fertilizer_recommendation_def recommendation_keys_def split: list.splits)

theorem all_or_nothing_witness:
  "map fst (fst (fertilizer_recommendation offline_environment ''Red'' ''Rice'' 1000 1 False None
      None None fresh_state)) = recommendation_keys
   \<and> map fst (fst (fertilizer_recommendation offline_environment ''Red'' ''Wheat'' 1000 1 False None
      None None fresh_state)) = [''error'']
   \<and> map fst (fst (fertilizer_recommendation keyed_environment ''Red'' ''Rice'' 1000 1 False None
      None (Some ''Delhi'') fresh_state)) = [''error'']"
proof -
  have a: "filtered ''Red'' ''Rice'' \<noteq> []" by (simp add: filtered_Red_Rice)
  have b: "filtered ''Red'' ''Wheat'' = []" by (simp add: SAMPLE_DATA_rows filtered_def)
  have c: "dict_get (fst (resolve_weather keyed_environment False None None (Some ''Delhi'')
             fresh_state)) ''status'' PNone \<noteq> PStr ''ok''"
    by (simp add: resolve_weather_def keyed_environment_def truthy_str_def truthy_float_def
          get_weather_data_def fresh_state_def get_weather_data_wrapped_def try_block_def
          dict_get_def Let_def)
  show ?thesis
    using all_or_nothing [of offline_environment "''Red''" "''Rice''" 1000 1 False None None None
            fresh_state]
      all_or_nothing [of offline_environment "''Red''" "''Wheat''" 1000 1 False None None None
            fresh_state]
      all_or_nothing [of keyed_environment "''Red''" "''Rice''" 1000 1 False None None
            "Some ''Delhi''" fresh_state]
      a b c
    by (simp add: resolve_weather_offline default_weather_status)
qed

text \<open>
  Claim C6.  When no credential is configured (\<^verbatim>\<open>API_KEY\<close> absent; the same holds for the
  empty string), the weather of every request is the fixed default snapshot: status ok,
  temperature 25, rainfall 0, humidity 60, wind speed 2, soil temperature 23, soil moisture
  50.  The engine returns with the state it was called in, so it has sent no request and
  stored nothing in the cache; its result is the no-data error when no row matches, and
  the recommendation around the default snapshot otherwise.
\<close>

theorem no_credential_default:
  assumes "\<not> truthy_str (API_KEY env)"
  shows "resolve_weather env u lat lon m st =
           ([(''status'', PStr ''ok''), (''temperature'', PInt 25), (''rainfall'', PInt 0),
             (''humidity'', PInt 60), (''wind_speed'', PInt 2), (''soil_temp'', PInt 23),
             (''soil_moisture'', PInt 50)], st)
         \<and> fertilizer_recommendation env soil crop land fallow u lat lon m st =
             (case filtered soil crop of
                [] \<Rightarrow> no_data_error
              | r # _ \<Rightarrow> [(''fertilizers'', PList (fertilizers_of r)),
                          (''land_size_m2'', PFloat land),
                          (''fallow_years'', PInt fallow),
                          (''weather'', PDict default_weather)], st)"
  using resolve_weather_no_key [OF assms, of u lat lon m st]
    engine_with_default_weather [of env u lat lon m st soil crop land fallow]
  by (simp add: default_weather_literal)

theorem no_credential_default_witness:
  "\<not> truthy_str (API_KEY offline_environment)
   \<and> fertilizer_recommendation offline_environment ''Red'' ''Rice'' 1000 1 True (Some 28.6)
       (Some 77.2) (Some ''Delhi'') fresh_state =
       ([(''fertilizers'', PList [PStr ''Urea'', PStr ''Single Super Phosphate'',
                                   PStr ''Muriate of Potash'']),
         (''land_size_m2'', PFloat 1000),
         (''fallow_years'', PInt 1),
         (''weather'', PDict default_weather)], fresh_state)
   \<and> sent fresh_state = []"
proof -
  have k: "\<not> truthy_str (API_KEY offline_environment)"
    by (simp add: offline_environment_def truthy_str_def)
  from no_credential_default [OF k, of True "Some 28.6" "Some 77.2" "Some ''Delhi''" fresh_state
      "''Red''" "''Rice''" 1000 1]
  show ?thesis
    using k by (simp add: filtered_Red_Rice fertilizers_of_eq fresh_state_def)
qed

text \<open>
  Claim C10.  When the location identifiers of a request are all falsy, that is
  \<^verbatim>\<open>manual_location\<close> is absent or the empty string and, if the use-my-location flag is set,
  latitude or longitude is absent or equal to 0, the engine uses the fixed default snapshot
  and returns with the state it was called in (no request sent), whatever the credential.
\<close>

theorem falsy_location_default:
  assumes "m = None \<or> m = Some []"
    and "\<not> u \<or> lat = None \<or> lat = Some 0 \<or> lon = None \<or> lon = Some 0"
  shows "resolve_weather env u lat lon m st =
           ([(''status'', PStr ''ok''), (''temperature'', PInt 25), (''rainfall'', PInt 0),
             (''humidity'', PInt 60), (''wind_speed'', PInt 2), (''soil_temp'', PInt 23),
             (''soil_moisture'', PInt 50)], st)
         \<and> fertilizer_recommendation env soil crop land fallow u lat lon m st =
             (case filtered soil crop of
                [] \<Rightarrow> no_data_error
              | r # _ \<Rightarrow> [(''fertilizers'', PList (fertilizers_of r)),
                          (''land_size_m2'', PFloat land),
                          (''fallow_years'', PInt fallow),
                          (''weather'', PDict default_weather)], st)"
proof -
  from assms have "\<not> truthy_str m" and "\<not> (u \<and> truthy_float lat \<and> truthy_float lon)"
    by (auto simp: truthy_str_def truthy_float_def)
  then have "resolve_weather env u lat lon m st = (default_weather, st)"
    by (auto simp: resolve_weather_def)
  then show ?thesis
    using engine_with_default_weather [of env u lat lon m st soil crop land fallow]
    by (simp add: default_weather_literal)
qed

theorem falsy_location_default_witness:
  "truthy_str (API_KEY keyed_environment)
   \<and> fertilizer_recommendation keyed_environment ''Red'' ''Rice'' 1000 1 True (Some 0)
       (Some 77.2) (Some []) fresh_state =
       ([(''fertilizers'', PList [PStr ''Urea'', PStr ''Single Super Phosphate'',
                                   PStr ''Muriate of Potash'']),
         (''land_size_m2'', PFloat 1000),
         (''fallow_years'', PInt 1),
         (''weather'', PDict default_weather)], fresh_state)
   \<and> sent fresh_state = []"
proof -
  have m: "Some [] = None \<or> Some ([] :: string) = Some []" by simp
  have c: "\<not> True \<or> Some (0::real) = None \<or> Some (0::real) = Some 0
           \<or> Some (77.2::real) = None \<or> Some (77.2::real) = Some 0" by simp
  from falsy_location_default [OF m c, of keyed_environment fresh_state "''Red''" "''Rice''" 1000 1]
  show ?thesis
    by (simp add: filtered_Red_Rice fertilizers_of_eq fresh_state_def keyed_environment_def
          truthy_str_def)
qed

section \<open>The weather adapter never raises\<close>

lemma snapshot_of_is_ok:
  assumes "snapshot_of data = Inr s"
  shows "is_ok_snapshot s"
proof -
  from assms obtain t rf h ws st sm where
    "s = [(''status'', PStr ''ok''), (''temperature'', t), (''rainfall'', rf), (''humidity'', h),
          (''wind_speed'', ws), (''soil_temp'', st), (''soil_moisture'', sm)]"
    unfolding snapshot_of_def and_then_eq_Inr by blast
  then show ?thesis
    by (simp add: is_ok_snapshot_def snapshot_keys_def)
qed

lemma try_block_is_ok:
  assumes "try_block env loc = Inr s"
  shows "is_ok_snapshot s"
proof -
  from assms obtain data where "snapshot_of data = Inr s"
    unfolding try_block_def and_then_eq_Inr by blast
  then show ?thesis by (rule snapshot_of_is_ok)
qed

lemma wrapped_cases:
  "(case try_block env loc of
      Inr s \<Rightarrow> get_weather_data_wrapped env loc = s \<and> is_ok_snapshot s
    | Inl e \<Rightarrow> get_weather_data_wrapped env loc =
                 [(''status'', PStr ''error''), (''message'', PStr (str_exception env e))])"
  by (auto simp: get_weather_data_wrapped_def split: sum.splits dest: try_block_is_ok)

lemma wrapped_well_formed: "well_formed_snapshot (get_weather_data_wrapped env loc)"
proof (cases "try_block env loc")
  case (Inl e)
  then show ?thesis
    by (simp add: get_weather_data_wrapped_def well_formed_snapshot_def is_error_snapshot_def)
next
  case (Inr s)
  then show ?thesis
    using try_block_is_ok [OF Inr]
    by (simp add: get_weather_data_wrapped_def well_formed_snapshot_def)
qed

lemma list_all_take: "list_all P xs \<Longrightarrow> list_all P (take n xs)"
  by (auto simp: list_all_iff dest: in_set_takeD)

lemma cached_well_formed:
  assumes "cache_well_formed st"
  shows "well_formed_snapshot (fst (get_weather_data env loc st))
         \<and> cache_well_formed (snd (get_weather_data env loc st))"
proof (cases "map_of (cache st) loc")
  case None
  have "list_all (\<lambda>kv. well_formed_snapshot (snd kv))
          ((loc, get_weather_data_wrapped env loc) # cache st)"
    using assms by (simp add: cache_well_formed_def wrapped_well_formed)
  then have "list_all (\<lambda>kv. well_formed_snapshot (snd kv))
          (take 100 ((loc, get_weather_data_wrapped env loc) # cache st))"
    by (rule list_all_take)
  with None show ?thesis
    by (simp add: get_weather_data_def Let_def cache_well_formed_def wrapped_well_formed)
next
  case (Some s)
  then have "(loc, s) \<in> set (cache st)" by (rule map_of_SomeD)
  with assms have "well_formed_snapshot s"
    by (auto simp: cache_well_formed_def list_all_iff)
  with Some assms show ?thesis
    by (auto simp: get_weather_data_def cache_well_formed_def list_all_iff)
qed

text \<open>
  Claim C3.  Whatever the location and whatever \<^verbatim>\<open>requests.get\<close> and \<^verbatim>\<open>response.json()\<close>
  do (raise, return a malformed or incomplete payload, return a complete one), the weather
  fetch function returns a snapshot and raises nothing: when the \<^verbatim>\<open>try\<close> block ends
  normally the result is its ok snapshot with all six weather fields, and when it raises
  \<open>e\<close> the result is the error snapshot whose message is \<^verbatim>\<open>str(e)\<close>.  The same holds
  behind the cache, which only ever stores such snapshots.
\<close>

theorem adapter_never_raises:
  "(case try_block env loc of
      Inr s \<Rightarrow> get_weather_data_wrapped env loc = s \<and> is_ok_snapshot s
    | Inl e \<Rightarrow> get_weather_data_wrapped env loc =
                 [(''status'', PStr ''error''), (''message'', PStr (str_exception env e))])
   \<and> well_formed_snapshot (get_weather_data_wrapped env loc)
   \<and> (cache_well_formed st \<longrightarrow>
        well_formed_snapshot (fst (get_weather_data env loc st))
        \<and> cache_well_formed (snd (get_weather_data env loc st)))"
  using wrapped_cases [of env loc] wrapped_well_formed [of env loc] cached_well_formed [of st env loc]
  by blast

theorem adapter_never_raises_witness:
  "cache_well_formed fresh_state
   \<and> fst (get_weather_data keyed_environment (Place (Some ''Delhi'')) fresh_state) =
       [(''status'', PStr ''error''), (''message'', PStr ''unreachable'')]
   \<and> is_error_snapshot (fst (get_weather_data keyed_environment (Place (Some ''Delhi'')) fresh_state))
   \<and> fst (get_weather_data online_environment (Place (Some ''Delhi'')) fresh_state) =
       [(''status'', PStr ''ok''), (''temperature'', PInt 40), (''rainfall'', PInt 0),
        (''humidity'', PInt 20), (''wind_speed'', PFloat 3.5), (''soil_temp'', PInt 38),
        (''soil_moisture'', PInt 30)]
   \<and> is_ok_snapshot (fst (get_weather_data online_environment (Place (Some ''Delhi'')) fresh_state))"
proof -
  have wf: "cache_well_formed fresh_state"
    by (simp add: cache_well_formed_def fresh_state_def)
  have a: "fst (get_weather_data keyed_environment (Place (Some ''Delhi'')) fresh_state) =
             [(''status'', PStr ''error''), (''message'', PStr ''unreachable'')]"
    by (simp add: get_weather_data_def fresh_state_def get_weather_data_wrapped_def try_block_def
          keyed_environment_def Let_def)
  have b: "fst (get_weather_data online_environment (Place (Some ''Delhi'')) fresh_state) =
             [(''status'', PStr ''ok''), (''temperature'', PInt 40), (''rainfall'', PInt 0),
              (''humidity'', PInt 20), (''wind_speed'', PFloat 3.5), (''soil_temp'', PInt 38),
              (''soil_moisture'', PInt 30)]"
    by (simp add: get_weather_data_def fresh_state_def get_weather_data_wrapped_def try_block_def
          online_environment_def Let_def snapshot_of_sample_hot_dry)
  from adapter_never_raises [of keyed_environment "Place (Some ''Delhi'')" fresh_state]
    adapter_never_raises [of online_environment "Place (Some ''Delhi'')" fresh_state] wf
  have "well_formed_snapshot (fst (get_weather_data keyed_environment (Place (Some ''Delhi''))
          fresh_state))"
    and "well_formed_snapshot (fst (get_weather_data online_environment (Place (Some ''Delhi''))
          fresh_state))"
    by blast+
  then show ?thesis
    using wf a b
    by (simp add: well_formed_snapshot_def is_ok_snapshot_def is_error_snapshot_def
          snapshot_keys_def)
qed

section \<open>Location selection\<close>

lemma coordinates_take_precedence_nonzero:
  assumes "truthy_str (API_KEY env)" and "a \<noteq> 0" and "b \<noteq> 0"
  shows "resolve_weather env True (Some a) (Some b) m st =
           get_weather_data env (Coordinates (Some a) (Some b)) st"
  using assms by (simp add: resolve_weather_def truthy_float_def)

text \<open>
  Claim C8 says that with a credential, the use-my-location flag and both coordinates
  supplied, the adapter is called with the coordinate pair, also when a place name is
  given.  The guard tests the truthiness of \<^verbatim>\<open>lat\<close> and \<^verbatim>\<open>lon\<close>, so it holds for
  coordinates other than 0 (\<open>coordinates_take_precedence_nonzero\<close>) and fails on the
  equator and on the prime meridian.  The code at latitude 0, longitude 77.2, with the
  credential and the flag set: with the place name "Delhi" the adapter is called with the
  place name and the request sent is the one for \<^verbatim>\<open>q=Delhi\<close>, not the one for the
  coordinates; with no place name the default snapshot is used and nothing is sent.
\<close>

theorem zero_latitude_ignored:
  "resolve_weather online_environment True (Some 0) (Some 77.2) (Some ''Delhi'') fresh_state
     = get_weather_data online_environment (Place (Some ''Delhi'')) fresh_state
   \<and> sent (snd (resolve_weather online_environment True (Some 0) (Some 77.2) (Some ''Delhi'')
        fresh_state))
     = [''http://api.openweathermap.org/data/2.5/weather?q=Delhi&appid=key&units=metric'']
   \<and> resolve_weather online_environment True (Some 0) (Some 77.2) (Some ''Delhi'') fresh_state
     \<noteq> get_weather_data online_environment (Coordinates (Some 0) (Some 77.2)) fresh_state
   \<and> resolve_weather online_environment True (Some 0) (Some 77.2) None fresh_state
     = (default_weather, fresh_state)"
  by (simp add: resolve_weather_def truthy_float_def truthy_str_def online_environment_def
        get_weather_data_def fresh_state_def Let_def weather_url_def py_str_def optional_str_def)

section \<open>The endpoint\<close>

lemma digits_400: "digits 400 = ''400''"
  by code_simp

lemma handler_error_key:
  assumes "map_of recommendation ''error'' = Some detail"
  shows "handler_try_block env recommendation = Inl (HTTPException 400 detail)"
proof -
  from assms have "(''error'', detail) \<in> set recommendation" by (rule map_of_SomeD)
  then have "''error'' \<in> set (map fst recommendation)" by force
  with assms show ?thesis by (simp add: handler_try_block_def)
qed

lemma get_recommendation_error:
  assumes "fertilizer_recommendation env soil crop land fallow u lat lon m st
             = ([(''error'', PStr msg)], st')"
  shows "get_recommendation env soil crop land fallow u lat lon m st
           = (Inl (HTTPException 500 (PStr (''400: '' @ msg))), st')"
  using assms handler_error_key [of "[(''error'', PStr msg)]" "PStr msg" env]
  by (simp add: get_recommendation_def digits_400 py_str_def)

lemma handler_never_400:
  "fst (get_recommendation env soil crop land fallow u lat lon m st) \<noteq> Inl (HTTPException 400 d)"
  by (simp add: get_recommendation_def split: prod.splits sum.splits)

text \<open>
  Claim C2 says that a request that no row matches, or whose weather snapshot has status
  error, is answered with HTTP status 400 and the message as detail.  The handler raises
  \<^verbatim>\<open>HTTPException(status_code=400, ...)\<close> inside its own \<^verbatim>\<open>try\<close> block, and
  \<^verbatim>\<open>HTTPException\<close> is an \<^verbatim>\<open>Exception\<close>: the \<^verbatim>\<open>except\<close> clause catches it and raises
  status 500 with the text of the caught exception as detail.  The code on the soil and crop
  pair (Red, Wheat), which no row matches, for every environment and state, and on
  (Red, Rice) with the place name "Delhi" and an unreachable provider: status 500 both
  times.  No request is ever answered with status 400 (\<open>handler_never_400\<close>).
\<close>

theorem domain_error_gives_500:
  "get_recommendation env ''Red'' ''Wheat'' land fallow u lat lon m st
     = (Inl (HTTPException 500 (PStr ''400: No data for this soil-crop combination.'')), st)
   \<and> fst (get_recommendation keyed_environment ''Red'' ''Rice'' 1000 1 False None None
        (Some ''Delhi'') fresh_state)
     = Inl (HTTPException 500 (PStr ''400: unreachable''))"
proof -
  have "filtered ''Red'' ''Wheat'' = []"
    by (simp add: SAMPLE_DATA_rows filtered_def)
  then have "fertilizer_recommendation env ''Red'' ''Wheat'' land fallow u lat lon m st
               = ([(''error'', PStr ''No data for this soil-crop combination.'')], st)"
    by (simp add: fertilizer_recommendation_def)
  then have a: "get_recommendation env ''Red'' ''Wheat'' land fallow u lat lon m st
     = (Inl (HTTPException 500 (PStr ''400: No data for this soil-crop combination.'')), st)"
    using get_recommendation_error by fastforce
  have w: "resolve_weather keyed_environment False None None (Some ''Delhi'') fresh_state
            = get_weather_data keyed_environment (Place (Some ''Delhi'')) fresh_state"
    by (simp add: resolve_weather_def truthy_str_def truthy_float_def keyed_environment_def)
  have g: "fst (get_weather_data keyed_environment (Place (Some ''Delhi'')) fresh_state)
            = [(''status'', PStr ''error''), (''message'', PStr ''unreachable'')]"
    by (simp add: get_weather_data_def fresh_state_def get_weather_data_wrapped_def try_block_def
          keyed_environment_def Let_def)
  obtain st' where st': "get_weather_data keyed_environment (Place (Some ''Delhi'')) fresh_state
      = ([(''status'', PStr ''error''), (''message'', PStr ''unreachable'')], st')"
    using g by (cases "get_weather_data keyed_environment (Place (Some ''Delhi'')) fresh_state") simp
  have "fertilizer_recommendation keyed_environment ''Red'' ''Rice'' 1000 1 False None None
          (Some ''Delhi'') fresh_state = ([(''error'', PStr ''unreachable'')], st')"
    by (simp add: fertilizer_recommendation_def filtered_Red_Rice w st' dict_get_def)
  from get_recommendation_error [OF this]
  have "fst (get_recommendation keyed_environment ''Red'' ''Rice'' 1000 1 False None None
        (Some ''Delhi'') fresh_state) = Inl (HTTPException 500 (PStr ''400: unreachable''))"
    by simp
  with a show ?thesis by simp
qed

lemma get_recommendation_success:
  "\<exists>text. get_recommendation offline_environment ''Red'' ''Rice'' 1000 2 False None None None
            fresh_state =
          (Inr [(''fertilizers'', PList [PStr ''Urea'', PStr ''Single Super Phosphate'',
                                         PStr ''Muriate of Potash'']),
                (''land_size_m2'', PFloat 1000),
                (''fallow_years'', PInt 2),
                (''weather'', PDict default_weather),
                (''farmer_message'', PStr text)], fresh_state)"
proof -
  have "fertilizer_recommendation offline_environment ''Red'' ''Rice'' 1000 2 False None None None
          fresh_state =
          ([(''fertilizers'', PList [PStr ''Urea'', PStr ''Single Super Phosphate'',
                                     PStr ''Muriate of Potash'']),
            (''land_size_m2'', PFloat 1000),
            (''fallow_years'', PInt 2),
            (''weather'', PDict default_weather)], fresh_state)"
    using fertilizer_recommendation_ok [of "''Red''" "''Rice''" red_rice "[]" offline_environment
        False None None None fresh_state default_weather fresh_state 1000 2]
    by (simp add: filtered_Red_Rice red_rice_def resolve_weather_offline default_weather_status
          fertilizers_of_eq)
  then show ?thesis
    by (simp add: get_recommendation_def handler_try_block_def generate_farmer_message_def
          weather_advice_def rainfall_advice_def wind_advice_def soil_advice_def
          soil_temp_advice_def soil_moisture_advice_def fert_advice_def fallow_msg_def
          default_weather_def setitem_def)
qed

section \<open>The derived soil readings\<close>

lemma binary64_literals: "binary64 2 = 2" "binary64 10 = 10"
  by code_simp+

lemma float_of_int_2: "float_of_int 2 = Inr 2"
  by (simp add: float_of_int_def binary64_literals)

lemma float_of_int_10: "float_of_int 10 = Inr 10"
  by (simp add: float_of_int_def binary64_literals)

lemma soil_temp_derived:
  assumes "sub_int t 2 = Inr d" and "max_int 10 d = Inr st"
  shows "is_number t \<and> soil_temperature_rule t st"
proof (cases t)
  case (PFloat x)
  with assms show ?thesis
    by (auto simp: float_of_int_2 float_value_def max_int_def Let_def split: if_splits)
qed (use assms in \<open>auto simp: float_of_int_2 max_int_def of_bool_def split: if_splits\<close>)

lemma soil_moisture_derived:
  assumes "add_int h 10 = Inr s" and "min_int 100 s = Inr sm"
  shows "is_number h \<and> soil_moisture_rule h sm"
proof (cases h)
  case (PFloat y)
  with assms show ?thesis
    by (auto simp: float_of_int_10 float_value_def min_int_def Let_def split: if_splits)
qed (use assms in \<open>auto simp: float_of_int_10 min_int_def of_bool_def split: if_splits\<close>)

lemma float_value_is_number: "is_number (float_value z)"
  by (simp add: float_value_def Let_def)

lemma gt_int_total: "is_number v \<Longrightarrow> \<exists>b. gt_int v n = Inr b"
  by (cases v) auto

lemma lt_int_total: "is_number v \<Longrightarrow> \<exists>b. lt_int v n = Inr b"
  by (cases v) auto

lemma soil_temp_total:
  assumes "is_number t"
  shows "\<exists>st. and_then (sub_int t 2) (max_int 10) = Inr st"
proof -
  from assms obtain d where d: "sub_int t 2 = Inr d" "is_number d"
    by (cases t) (simp_all add: float_of_int_2 float_value_is_number)
  from gt_int_total [OF d(2)] obtain b where "gt_int d 10 = Inr b" ..
  with d(1) show ?thesis by (simp add: max_int_def)
qed

lemma soil_moisture_total:
  assumes "is_number h"
  shows "\<exists>sm. and_then (add_int h 10) (min_int 100) = Inr sm"
proof -
  from assms obtain s where s: "add_int h 10 = Inr s" "is_number s"
    by (cases h) (simp_all add: float_of_int_10 float_value_is_number)
  from lt_int_total [OF s(2)] obtain b where "lt_int s 100 = Inr b" ..
  with s(1) show ?thesis by (simp add: min_int_def)
qed

lemma snapshot_of_complete:
  assumes "complete_payload data"
  shows "\<exists>snapshot. snapshot_of data = Inr snapshot"
proof -
  from assms obtain main t h wind ws r where
      main: "getitem data ''main'' = Inr main"
    and t: "getitem main ''temp'' = Inr t" "is_number t"
    and h: "getitem main ''humidity'' = Inr h" "is_number h"
    and wind: "getitem data ''wind'' = Inr wind" "getitem wind ''speed'' = Inr ws"
    and rain: "get_method data ''rain'' (PDict []) = Inr (PDict r)"
    by (auto simp: complete_payload_def split: sum.splits pyval.splits)
  from soil_temp_total [OF t(2)] obtain st where st: "and_then (sub_int t 2) (max_int 10) = Inr st" ..
  from soil_moisture_total [OF h(2)] obtain sm where
    sm: "and_then (add_int h 10) (min_int 100) = Inr sm" ..
  from st obtain d where d: "sub_int t 2 = Inr d" "max_int 10 d = Inr st"
    by (auto simp: and_then_eq_Inr)
  from sm obtain s where s: "add_int h 10 = Inr s" "min_int 100 s = Inr sm"
    by (auto simp: and_then_eq_Inr)
  show ?thesis
    by (simp add: snapshot_of_def main t h wind rain d s)
qed

lemma snapshot_of_Inr:
  assumes "snapshot_of data = Inr snapshot"
  shows "\<exists>main t h wind ws r rf d st s sm.
           getitem data ''main'' = Inr main
         \<and> getitem main ''temp'' = Inr t \<and> getitem main ''humidity'' = Inr h
         \<and> getitem data ''wind'' = Inr wind \<and> getitem wind ''speed'' = Inr ws
         \<and> get_method data ''rain'' (PDict []) = Inr r \<and> get_method r ''1h'' (PInt 0) = Inr rf
         \<and> sub_int t 2 = Inr d \<and> max_int 10 d = Inr st
         \<and> add_int h 10 = Inr s \<and> min_int 100 s = Inr sm
         \<and> snapshot =
             [(''status'', PStr ''ok''), (''temperature'', t), (''rainfall'', rf), (''humidity'', h),
              (''wind_speed'', ws), (''soil_temp'', st), (''soil_moisture'', sm)]"
proof -
  from assms obtain m t r rf m' h w ws m2 t2 d st m3 h3 s sm where
      main: "getitem data ''main'' = Inr m" and temp: "getitem m ''temp'' = Inr t"
    and rain: "get_method data ''rain'' (PDict []) = Inr r"
    and rain1h: "get_method r ''1h'' (PInt 0) = Inr rf"
    and main': "getitem data ''main'' = Inr m'" and hum: "getitem m' ''humidity'' = Inr h"
    and wind: "getitem data ''wind'' = Inr w" and speed: "getitem w ''speed'' = Inr ws"
    and main2: "getitem data ''main'' = Inr m2" and temp2: "getitem m2 ''temp'' = Inr t2"
    and sub: "sub_int t2 2 = Inr d" and mx: "max_int 10 d = Inr st"
    and main3: "getitem data ''main'' = Inr m3" and hum3: "getitem m3 ''humidity'' = Inr h3"
    and add: "add_int h3 10 = Inr s" and mn: "min_int 100 s = Inr sm"
    and snap: "snapshot =
         [(''status'', PStr ''ok''), (''temperature'', t), (''rainfall'', rf), (''humidity'', h),
          (''wind_speed'', ws), (''soil_temp'', st), (''soil_moisture'', sm)]"
    unfolding snapshot_of_def and_then_eq_Inr by blast
  from main main' main2 main3 have "m' = m" "m2 = m" "m3 = m" by simp_all
  with temp temp2 hum hum3 have "t2 = t" "h3 = h" by simp_all
  with main temp hum wind speed rain rain1h sub mx add mn snap show ?thesis
    by (simp add: \<open>m' = m\<close>)
qed

lemma snapshot_of_payload:
  assumes "snapshot_of data = Inr snapshot"
  shows "\<exists>main t h st sm.
           getitem data ''main'' = Inr main
         \<and> getitem main ''temp'' = Inr t \<and> getitem main ''humidity'' = Inr h
         \<and> is_number t \<and> is_number h
         \<and> map_of snapshot ''status'' = Some (PStr ''ok'')
         \<and> map_of snapshot ''temperature'' = Some t
         \<and> map_of snapshot ''humidity'' = Some h
         \<and> map_of snapshot ''soil_temp'' = Some st
         \<and> map_of snapshot ''soil_moisture'' = Some sm
         \<and> soil_temperature_rule t st
         \<and> soil_moisture_rule h sm
         \<and> (omits_rainfall data \<longrightarrow> map_of snapshot ''rainfall'' = Some (PInt 0))
         \<and> complete_payload data"
proof -
  from snapshot_of_Inr [OF assms] obtain main t h wind ws r rf d st s sm where
      main: "getitem data ''main'' = Inr main"
    and temp: "getitem main ''temp'' = Inr t" and hum: "getitem main ''humidity'' = Inr h"
    and wind: "getitem data ''wind'' = Inr wind" "getitem wind ''speed'' = Inr ws"
    and rain: "get_method data ''rain'' (PDict []) = Inr r"
    and rain1h: "get_method r ''1h'' (PInt 0) = Inr rf"
    and sub: "sub_int t 2 = Inr d" "max_int 10 d = Inr st"
    and add: "add_int h 10 = Inr s" "min_int 100 s = Inr sm"
    and snap: "snapshot =
         [(''status'', PStr ''ok''), (''temperature'', t), (''rainfall'', rf), (''humidity'', h),
          (''wind_speed'', ws), (''soil_temp'', st), (''soil_moisture'', sm)]"
    by blast
  note st = soil_temp_derived [OF sub] and sm = soil_moisture_derived [OF add]
  have rf: "omits_rainfall data \<longrightarrow> rf = PInt 0"
    using get_method_rain_omitted [OF _ rain] rain1h by auto
  from rain1h obtain kvs where "r = PDict kvs" by (cases r) simp_all
  with main temp hum wind rain st sm have "complete_payload data"
    by (simp add: complete_payload_def)
  with main temp hum st sm rf show ?thesis
    by (simp add: snap)
qed

text \<open>
  The float readings of the sample payload, and what the float operations make of them:
  \<^verbatim>\<open>28.34 - 2\<close> is exact, \<^verbatim>\<open>60.1 + 10\<close> is rounded (down, by \<open>2 powi - 47\<close>).  The values are
  those of \<^verbatim>\<open>(28.34 - 2).as_integer_ratio()\<close> and \<^verbatim>\<open>(60.1 + 10).as_integer_ratio()\<close>.
\<close>

lemma float_readings:
  "binary64 28.34 = float_28_34" "binary64 60.1 = float_60_1"
  "binary64 float_28_34 = float_28_34" "binary64 float_60_1 = float_60_1"
  by code_simp+

lemma float_results:
  "binary64 (float_28_34 - 2) = 7414050886558679 / 281474976710656"
  "binary64 (float_60_1 + 10) = 2466424483427123 / 35184372088832"
  by code_simp+

lemma float_difference_exact: "float_28_34 - 2 = 7414050886558679 / 281474976710656"
  by (simp add: float_28_34_def)

lemma float_sum_rounded: "float_60_1 + 10 - 1 / 2 ^ 47 = 2466424483427123 / 35184372088832"
  by (simp add: float_60_1_def)

lemma float_soil_temp:
  "sub_int (PFloat float_28_34) 2 = Inr (PFloat (7414050886558679 / 281474976710656))"
  "max_int 10 (PFloat (7414050886558679 / 281474976710656))
     = Inr (PFloat (7414050886558679 / 281474976710656))"
  by (simp_all add: float_of_int_2 float_value_def float_readings float_results max_int_def)

lemma float_soil_moisture:
  "add_int (PFloat float_60_1) 10 = Inr (PFloat (2466424483427123 / 35184372088832))"
  "min_int 100 (PFloat (2466424483427123 / 35184372088832))
     = Inr (PFloat (2466424483427123 / 35184372088832))"
  by (simp_all add: float_of_int_10 float_value_def float_readings float_results min_int_def)

lemma snapshot_of_float_payload:
  "snapshot_of float_payload =
     Inr [(''status'', PStr ''ok''),
          (''temperature'', PFloat float_28_34),
          (''rainfall'', PFloat 0.25),
          (''humidity'', PFloat float_60_1),
          (''wind_speed'', PFloat 3.5),
          (''soil_temp'', PFloat (7414050886558679 / 281474976710656)),
          (''soil_moisture'', PFloat (2466424483427123 / 35184372088832))]"
  by (simp add: snapshot_of_def float_payload_def float_soil_temp float_soil_moisture
        del: sub_int.simps add_int.simps)

text \<open>
  Claim C7.  The adapter builds the ok snapshot exactly from the complete payloads.  In
  the snapshot it builds, temperature and humidity are the payload's \<^verbatim>\<open>main.temp\<close> and
  \<^verbatim>\<open>main.humidity\<close>, the soil temperature is \<^verbatim>\<open>max(10, temperature - 2)\<close> and the soil
  moisture is \<^verbatim>\<open>min(100, humidity + 10)\<close>, and the rainfall is 0 whenever the provider
  omits the hourly rainfall reading.  The arithmetic is that of the reading: exact for an
  integer, and for a float the float operation, whose result is the nearest binary64
  number.  The witness runs the adapter's block on three payloads: temperature 5 and
  humidity 95 give soil temperature 10 and soil moisture 100, temperature 40 and humidity
  20 give 38 and 30, both with the rainfall 0 that stands for the omitted reading; and the
  floats 28.34 and 60.1 give the floats that Python computes, 26.34 and 70.1.
\<close>

theorem soil_derivation:
  "((\<exists>snapshot. snapshot_of data = Inr snapshot) \<longleftrightarrow> complete_payload data)
   \<and> (snapshot_of data = Inr snapshot \<longrightarrow>
        (\<exists>main t h st sm.
            getitem data ''main'' = Inr main
          \<and> getitem main ''temp'' = Inr t \<and> getitem main ''humidity'' = Inr h
          \<and> map_of snapshot ''status'' = Some (PStr ''ok'')
          \<and> map_of snapshot ''temperature'' = Some t
          \<and> map_of snapshot ''humidity'' = Some h
          \<and> map_of snapshot ''soil_temp'' = Some st
          \<and> map_of snapshot ''soil_moisture'' = Some sm
          \<and> soil_temperature_rule t st
          \<and> soil_moisture_rule h sm
          \<and> (omits_rainfall data \<longrightarrow> map_of snapshot ''rainfall'' = Some (PInt 0))))"
proof -
  have "(\<exists>snapshot. snapshot_of data = Inr snapshot) \<longleftrightarrow> complete_payload data"
    using snapshot_of_complete [of data] snapshot_of_payload [of data] by blast
  moreover have "snapshot_of data = Inr snapshot \<longrightarrow>
        (\<exists>main t h st sm.
            getitem data ''main'' = Inr main
          \<and> getitem main ''temp'' = Inr t \<and> getitem main ''humidity'' = Inr h
          \<and> map_of snapshot ''status'' = Some (PStr ''ok'')
          \<and> map_of snapshot ''temperature'' = Some t
          \<and> map_of snapshot ''humidity'' = Some h
          \<and> map_of snapshot ''soil_temp'' = Some st
          \<and> map_of snapshot ''soil_moisture'' = Some sm
          \<and> soil_temperature_rule t st
          \<and> soil_moisture_rule h sm
          \<and> (omits_rainfall data \<longrightarrow> map_of snapshot ''rainfall'' = Some (PInt 0)))"
    using snapshot_of_payload [of data snapshot] by blast
  ultimately show ?thesis by blast
qed

theorem soil_derivation_witness:
  "snapshot_of (sample_payload 5 95) =
     Inr [(''status'', PStr ''ok''), (''temperature'', PInt 5), (''rainfall'', PInt 0),
          (''humidity'', PInt 95), (''wind_speed'', PFloat 3.5), (''soil_temp'', PInt 10),
          (''soil_moisture'', PInt 100)]
   \<and> snapshot_of (sample_payload 40 20) =
     Inr [(''status'', PStr ''ok''), (''temperature'', PInt 40), (''rainfall'', PInt 0),
          (''humidity'', PInt 20), (''wind_speed'', PFloat 3.5), (''soil_temp'', PInt 38),
          (''soil_moisture'', PInt 30)]
   \<and> snapshot_of float_payload =
     Inr [(''status'', PStr ''ok''), (''temperature'', PFloat float_28_34),
          (''rainfall'', PFloat 0.25), (''humidity'', PFloat float_60_1),
          (''wind_speed'', PFloat 3.5),
          (''soil_temp'', PFloat (7414050886558679 / 281474976710656)),
          (''soil_moisture'', PFloat (2466424483427123 / 35184372088832))]
   \<and> complete_payload (sample_payload 5 95) \<and> omits_rainfall (sample_payload 5 95)
   \<and> complete_payload (sample_payload 40 20) \<and> omits_rainfall (sample_payload 40 20)
   \<and> complete_payload float_payload \<and> \<not> omits_rainfall float_payload
   \<and> soil_temperature_rule (PInt 5) (PInt 10) \<and> soil_moisture_rule (PInt 95) (PInt 100)
   \<and> soil_temperature_rule (PInt 40) (PInt 38) \<and> soil_moisture_rule (PInt 20) (PInt 30)
   \<and> soil_temperature_rule (PFloat float_28_34) (PFloat (7414050886558679 / 281474976710656))
   \<and> soil_moisture_rule (PFloat float_60_1) (PFloat (2466424483427123 / 35184372088832))"
proof -
  note cold = snapshot_of_sample_cold_humid and hot = snapshot_of_sample_hot_dry
    and float = snapshot_of_float_payload
  have omitted: "omits_rainfall (sample_payload 5 95)" "omits_rainfall (sample_payload 40 20)"
    "\<not> omits_rainfall float_payload"
    by (simp_all add: omits_rainfall_def sample_payload_def float_payload_def)
  from soil_derivation [of "sample_payload 5 95"] cold
  have c1: "complete_payload (sample_payload 5 95)" by blast
  from soil_derivation [of "sample_payload 40 20"] hot
  have c2: "complete_payload (sample_payload 40 20)" by blast
  from soil_derivation [of float_payload] float
  have c3: "complete_payload float_payload" by blast
  from soil_derivation [of "sample_payload 5 95", THEN conjunct2, rule_format, OF cold]
  have r1: "soil_temperature_rule (PInt 5) (PInt 10) \<and> soil_moisture_rule (PInt 95) (PInt 100)"
    by (simp add: sample_payload_def)
  from soil_derivation [of "sample_payload 40 20", THEN conjunct2, rule_format, OF hot]
  have r2: "soil_temperature_rule (PInt 40) (PInt 38) \<and> soil_moisture_rule (PInt 20) (PInt 30)"
    by (simp add: sample_payload_def)
  from soil_derivation [of float_payload, THEN conjunct2, rule_format, OF float]
  have r3: "soil_temperature_rule (PFloat float_28_34) (PFloat (7414050886558679 / 281474976710656))
            \<and> soil_moisture_rule (PFloat float_60_1) (PFloat (2466424483427123 / 35184372088832))"
    by (auto simp: float_payload_def)
  from cold hot float omitted c1 c2 c3 r1 r2 r3 show ?thesis by simp
qed

section \<open>The rainfall line of the advisory\<close>

lemma advice_lines_distinct:
  "distinct [heavy_rain_line, rain_expected_line, dry_conditions_line, strong_winds_line, breezy_line]"
  by (simp add: heavy_rain_line_def rain_expected_line_def dry_conditions_line_def
        strong_winds_line_def breezy_line_def)

lemma gt_int_number: "is_number v \<Longrightarrow> gt_int v n = Inr (exceeds v n)"
  by (cases v) auto

lemma gt_int_not_number: "\<not> is_number v \<Longrightarrow> gt_int v n = Inl (not_supported ''>'' v)"
  by (cases v) auto

lemma gt_int_Inr: "gt_int v n = Inr b \<Longrightarrow> is_number v \<and> b = exceeds v n"
  by (cases v) auto

lemma rainfall_advice_Inr:
  assumes "rainfall_advice weather = Inr ls"
  shows "\<exists>rainfall. getitem weather ''rainfall'' = Inr rainfall \<and> is_number rainfall
           \<and> ls = [rainfall_notice rainfall]"
proof -
  from assms obtain rainfall heavy where r: "getitem weather ''rainfall'' = Inr rainfall"
    and h: "gt_int rainfall 10 = Inr heavy"
    unfolding rainfall_advice_def and_then_eq_Inr by blast
  from gt_int_Inr [OF h] have n: "is_number rainfall" ..
  with assms r have "ls = [rainfall_notice rainfall]"
    by (auto simp: rainfall_advice_def rainfall_notice_def gt_int_number split: if_splits)
  with r n show ?thesis by blast
qed

lemma rainfall_advice_number:
  assumes "getitem weather ''rainfall'' = Inr rainfall" and "is_number rainfall"
  shows "rainfall_advice weather = Inr [rainfall_notice rainfall]"
  using assms by (simp add: rainfall_advice_def rainfall_notice_def gt_int_number)

lemma wind_advice_Inr:
  assumes "wind_advice weather = Inr ls"
  shows "set ls \<subseteq> {strong_winds_line, breezy_line}"
  using assms by (auto simp: wind_advice_def and_then_eq_Inr split: if_splits)

lemma wind_advice_number:
  assumes "getitem weather ''wind_speed'' = Inr w" and "is_number w"
  shows "\<exists>ls. wind_advice weather = Inr ls"
  using assms by (simp add: wind_advice_def gt_int_number)

lemma soil_advice_number:
  assumes "getitem weather ''soil_temp'' = Inr t" and "is_number t"
    and "getitem weather ''soil_moisture'' = Inr m" and "is_number m"
  shows "\<exists>ls. soil_advice weather = Inr ls"
proof -
  from lt_int_total [OF assms(2)] obtain c where c: "lt_int t 15 = Inr c" ..
  from lt_int_total [OF assms(4)] obtain d where d: "lt_int m 40 = Inr d" ..
  from assms c have "\<exists>ls. soil_temp_advice weather = Inr ls"
    by (simp add: soil_temp_advice_def gt_int_number)
  moreover from assms d have "\<exists>ls. soil_moisture_advice weather = Inr ls"
    by (simp add: soil_moisture_advice_def gt_int_number)
  ultimately show ?thesis
    by (auto simp: soil_advice_def)
qed

lemma one_rainfall_notice:
  assumes "set wind_lines \<subseteq> {strong_winds_line, breezy_line}"
  shows "filter (\<lambda>l. l \<in> set rainfall_notices) (rainfall_notice rainfall # wind_lines)
           = [rainfall_notice rainfall]"
    and "exceeds rainfall 10 \<Longrightarrow> rainfall_notice rainfall = heavy_rain_line"
    and "exceeds rainfall 10 \<Longrightarrow> dry_conditions_line \<notin> set (rainfall_notice rainfall # wind_lines)"
proof -
  have "\<forall>l \<in> set wind_lines. l \<notin> set rainfall_notices"
    using assms advice_lines_distinct by (auto simp: rainfall_notices_def)
  then have "filter (\<lambda>l. l \<in> set rainfall_notices) wind_lines = []"
    by (simp add: filter_empty_conv)
  moreover have "rainfall_notice rainfall \<in> set rainfall_notices"
    by (simp add: rainfall_notice_def rainfall_notices_def)
  ultimately show "filter (\<lambda>l. l \<in> set rainfall_notices) (rainfall_notice rainfall # wind_lines)
           = [rainfall_notice rainfall]"
    by simp
  show "exceeds rainfall 10 \<Longrightarrow> rainfall_notice rainfall = heavy_rain_line"
    by (simp add: rainfall_notice_def)
  show "exceeds rainfall 10 \<Longrightarrow> dry_conditions_line \<notin> set (rainfall_notice rainfall # wind_lines)"
    using assms advice_lines_distinct by (auto simp: rainfall_notice_def)
qed

lemma message_text_weather_section:
  "\<exists>before after.
     message_text env land_size fallow_years soil_temp soil_moisture weather_lines soil_lines
       fert_lines fallow = before @ weather_section weather_lines @ after"
proof -
  let ?before =
    "[CHR 0x0A]
     @ ''    '' @ seedling @ '' **FARMER ADVISORY** '' @ seedling @ [CHR 0x0A]
     @ ''    ========================'' @ [CHR 0x0A]
     @ ''    **FIELD CONDITIONS:**'' @ [CHR 0x0A]
     @ ''    - Land: '' @ py_str env land_size @ ''m'' @ [CHR 0xC2, CHR 0xB2]
       @ '' | Fallow: '' @ py_str env fallow_years @ '' year(s)'' @ [CHR 0x0A]
     @ ''    - Soil Temp: '' @ py_str env soil_temp @ [CHR 0xC2, CHR 0xB0] @ ''C | Moisture: ''
       @ py_str env soil_moisture @ ''%'' @ [CHR 0x0A]
     @ ''    '' @ [CHR 0x0A]"
  let ?after =
    "[CHR 0x0A]
     @ ''    '' @ (if soil_lines \<noteq> [] then join_lines soil_lines
                   else check_mark @ '' Soil conditions normal'') @ [CHR 0x0A]
     @ ''    '' @ [CHR 0x0A]
     @ ''    **FERTILIZER PLAN:**'' @ [CHR 0x0A]
     @ ''    '' @ (if fert_lines \<noteq> [] then join_lines fert_lines
                   else check_mark @ '' No fertilizers needed now'') @ [CHR 0x0A]
     @ ''    '' @ [CHR 0x0A]
     @ ''    **SPECIAL NOTES:**'' @ [CHR 0x0A]
     @ ''    '' @ (if fallow \<noteq> [] then fallow else ''No critical issues detected'') @ [CHR 0x0A]
     @ ''    ''"
  have "message_text env land_size fallow_years soil_temp soil_moisture weather_lines soil_lines
          fert_lines fallow = ?before @ weather_section weather_lines @ ?after"
    by (simp add: message_text_def weather_section_def)
  then show ?thesis by blast
qed

lemma generate_farmer_message_Inr:
  assumes "generate_farmer_message env recommendation = Inr message"
  shows "\<exists>weather land_size fallow_years soil_temp soil_moisture weather_lines soil_lines
            fert_lines fallow.
           getitem (PDict recommendation) ''weather'' = Inr weather
         \<and> weather_advice weather = Inr weather_lines
         \<and> message = message_text env land_size fallow_years soil_temp soil_moisture
                        weather_lines soil_lines fert_lines fallow"
  using assms unfolding generate_farmer_message_def and_then_eq_Inr by blast

lemma weather_advice_Inr:
  assumes "weather_advice weather = Inr weather_lines"
  shows "\<exists>rainfall wind_lines.
           getitem weather ''rainfall'' = Inr rainfall \<and> is_number rainfall
         \<and> set wind_lines \<subseteq> {strong_winds_line, breezy_line}
         \<and> weather_lines = rainfall_notice rainfall # wind_lines"
proof -
  from assms obtain rain_lines wind_lines where r: "rainfall_advice weather = Inr rain_lines"
    and w: "wind_advice weather = Inr wind_lines" and l: "weather_lines = rain_lines @ wind_lines"
    unfolding weather_advice_def and_then_eq_Inr by blast
  from rainfall_advice_Inr [OF r] wind_advice_Inr [OF w] l show ?thesis by auto
qed

lemma rendered_advisory:
  assumes "generate_farmer_message env recommendation = Inr message"
  shows "\<exists>weather rainfall wind_lines before after.
           getitem (PDict recommendation) ''weather'' = Inr weather
         \<and> getitem weather ''rainfall'' = Inr rainfall \<and> is_number rainfall
         \<and> set wind_lines \<subseteq> {strong_winds_line, breezy_line}
         \<and> message = before @ weather_section (rainfall_notice rainfall # wind_lines) @ after
         \<and> filter (\<lambda>l. l \<in> set rainfall_notices) (rainfall_notice rainfall # wind_lines)
             = [rainfall_notice rainfall]
         \<and> (exceeds rainfall 10 \<longrightarrow>
              rainfall_notice rainfall = heavy_rain_line
              \<and> dry_conditions_line \<notin> set (rainfall_notice rainfall # wind_lines))"
proof -
  from generate_farmer_message_Inr [OF assms] obtain weather land_size fallow_years soil_temp
      soil_moisture weather_lines soil_lines fert_lines fallow where
      w: "getitem (PDict recommendation) ''weather'' = Inr weather"
    and a: "weather_advice weather = Inr weather_lines"
    and m: "message = message_text env land_size fallow_years soil_temp soil_moisture
                        weather_lines soil_lines fert_lines fallow"
    by blast
  from weather_advice_Inr [OF a] obtain rainfall wind_lines where
      r: "getitem weather ''rainfall'' = Inr rainfall" "is_number rainfall"
    and s: "set wind_lines \<subseteq> {strong_winds_line, breezy_line}"
    and l: "weather_lines = rainfall_notice rainfall # wind_lines"
    by blast
  from message_text_weather_section [of env land_size fallow_years soil_temp soil_moisture
      weather_lines soil_lines fert_lines fallow] m l
  obtain before after where
    "message = before @ weather_section (rainfall_notice rainfall # wind_lines) @ after"
    by auto
  with w r s one_rainfall_notice [OF s, of rainfall] show ?thesis by blast
qed

lemma numeric_readings_rendered:
  assumes "numeric_readings weather"
  shows "\<exists>message.
           generate_farmer_message env
             [(''fertilizers'', PList fertilizers), (''land_size_m2'', land_size),
              (''fallow_years'', PInt fallow_years), (''weather'', weather)] = Inr message"
proof -
  from assms obtain r w t m where
      r: "getitem weather ''rainfall'' = Inr r" "is_number r"
    and w: "getitem weather ''wind_speed'' = Inr w" "is_number w"
    and t: "getitem weather ''soil_temp'' = Inr t" "is_number t"
    and m: "getitem weather ''soil_moisture'' = Inr m" "is_number m"
    by (auto simp: numeric_readings_def split: sum.splits)
  from wind_advice_number [OF w] obtain wl where wl: "wind_advice weather = Inr wl" ..
  from soil_advice_number [OF t m] obtain sl where sl: "soil_advice weather = Inr sl" ..
  show ?thesis
    by (simp add: generate_farmer_message_def weather_advice_def rainfall_advice_number [OF r]
          wl sl fert_advice_def fallow_msg_def t m)
qed

text \<open>
  Claim C9, amended.  For every recommendation whose advisory is rendered, the rainfall of
  its weather snapshot is a number, and the weather section of the advisory shows the line
  that the rainfall selects (the heavy-rain warning above 10, else the delay-fertilizer
  notice above 5, else the dry-conditions notice) followed by at most wind lines: of the
  three rainfall lines exactly that one, and with rainfall above 10 it is the heavy-rain
  warning and the dry-conditions line is not shown.  The advisory is rendered for every
  recommendation of the engine whose snapshot has numbers as rainfall, wind speed, soil
  temperature and soil moisture.  It is not rendered for every weather snapshot, as the
  example after the witness shows.
\<close>

theorem rainfall_line:
  "(generate_farmer_message env recommendation = Inr message \<longrightarrow>
      (\<exists>weather rainfall wind_lines before after.
          getitem (PDict recommendation) ''weather'' = Inr weather
        \<and> getitem weather ''rainfall'' = Inr rainfall \<and> is_number rainfall
        \<and> set wind_lines \<subseteq> {strong_winds_line, breezy_line}
        \<and> message = before @ weather_section (rainfall_notice rainfall # wind_lines) @ after
        \<and> filter (\<lambda>l. l \<in> set rainfall_notices) (rainfall_notice rainfall # wind_lines)
            = [rainfall_notice rainfall]
        \<and> (exceeds rainfall 10 \<longrightarrow>
             rainfall_notice rainfall = heavy_rain_line
             \<and> dry_conditions_line \<notin> set (rainfall_notice rainfall # wind_lines))))
   \<and> (numeric_readings weather' \<longrightarrow>
        (\<exists>message'.
           generate_farmer_message env
             [(''fertilizers'', PList fertilizers), (''land_size_m2'', land_size),
              (''fallow_years'', PInt fallow_years), (''weather'', weather')] = Inr message'))"
  using rendered_advisory [of env recommendation message]
    numeric_readings_rendered [of weather' env fertilizers land_size fallow_years]
  by blast

theorem rainfall_line_witness:
  "generate_farmer_message offline_environment (sample_recommendation (PInt 12))
     = Inr (sample_message heavy_rain_line)
   \<and> generate_farmer_message offline_environment (sample_recommendation (PFloat 7.5))
     = Inr (sample_message rain_expected_line)
   \<and> generate_farmer_message offline_environment (sample_recommendation (PInt 0))
     = Inr (sample_message dry_conditions_line)
   \<and> numeric_readings (sample_weather (PInt 12))
   \<and> numeric_readings (sample_weather (PFloat 7.5))
   \<and> numeric_readings (sample_weather (PInt 0))
   \<and> rainfall_notice (PInt 12) = heavy_rain_line
   \<and> rainfall_notice (PInt 10) = rain_expected_line
   \<and> rainfall_notice (PFloat 7.5) = rain_expected_line
   \<and> rainfall_notice (PInt 5) = dry_conditions_line
   \<and> rainfall_notice (PInt 0) = dry_conditions_line
   \<and> (\<exists>before after.
         sample_message heavy_rain_line = before @ weather_section [heavy_rain_line] @ after)
   \<and> (\<exists>wind_lines before after.
         set wind_lines \<subseteq> {strong_winds_line, breezy_line}
       \<and> sample_message heavy_rain_line
             = before @ weather_section (heavy_rain_line # wind_lines) @ after
       \<and> filter (\<lambda>l. l \<in> set rainfall_notices) (heavy_rain_line # wind_lines) = [heavy_rain_line]
       \<and> dry_conditions_line \<notin> set (heavy_rain_line # wind_lines))
   \<and> (\<exists>wind_lines before after.
         set wind_lines \<subseteq> {strong_winds_line, breezy_line}
       \<and> sample_message rain_expected_line
             = before @ weather_section (rain_expected_line # wind_lines) @ after
       \<and> filter (\<lambda>l. l \<in> set rainfall_notices) (rain_expected_line # wind_lines)
           = [rain_expected_line])
   \<and> (\<exists>wind_lines before after.
         set wind_lines \<subseteq> {strong_winds_line, breezy_line}
       \<and> sample_message dry_conditions_line
             = before @ weather_section (dry_conditions_line # wind_lines) @ after
       \<and> filter (\<lambda>l. l \<in> set rainfall_notices) (dry_conditions_line # wind_lines)
           = [dry_conditions_line])"
proof -
  have notice: "rainfall_notice (PInt 12) = heavy_rain_line"
    "rainfall_notice (PInt 10) = rain_expected_line"
    "rainfall_notice (PFloat 7.5) = rain_expected_line"
    "rainfall_notice (PInt 5) = dry_conditions_line"
    "rainfall_notice (PInt 0) = dry_conditions_line"
    by (simp_all add: rainfall_notice_def)
  have readings: "numeric_readings (sample_weather (PInt 12))"
    "numeric_readings (sample_weather (PFloat 7.5))" "numeric_readings (sample_weather (PInt 0))"
    by (simp_all add: numeric_readings_def sample_weather_def)
  have heavy_message:
      "generate_farmer_message offline_environment (sample_recommendation (PInt 12))
                 = Inr (sample_message heavy_rain_line)"
    and delay_message:
      "generate_farmer_message offline_environment (sample_recommendation (PFloat 7.5))
                 = Inr (sample_message rain_expected_line)"
    and dry_message:
      "generate_farmer_message offline_environment (sample_recommendation (PInt 0))
                 = Inr (sample_message dry_conditions_line)"
    by (simp_all add: generate_farmer_message_def sample_recommendation_def sample_weather_def
          sample_message_def weather_advice_def rainfall_advice_def wind_advice_def soil_advice_def
          soil_temp_advice_def soil_moisture_advice_def fert_advice_def fallow_msg_def)
  have sec: "\<exists>before after.
      sample_message heavy_rain_line = before @ weather_section [heavy_rain_line] @ after"
    unfolding sample_message_def by (rule message_text_weather_section)
  have heavy: "\<exists>wind_lines before after.
         set wind_lines \<subseteq> {strong_winds_line, breezy_line}
       \<and> sample_message heavy_rain_line
             = before @ weather_section (heavy_rain_line # wind_lines) @ after
       \<and> filter (\<lambda>l. l \<in> set rainfall_notices) (heavy_rain_line # wind_lines) = [heavy_rain_line]
       \<and> dry_conditions_line \<notin> set (heavy_rain_line # wind_lines)"
  proof -
    from rainfall_line [of offline_environment "sample_recommendation (PInt 12)"
        "sample_message heavy_rain_line", THEN conjunct1, rule_format, OF heavy_message]
    obtain weather rainfall wind_lines before after where
        w: "getitem (PDict (sample_recommendation (PInt 12))) ''weather'' = Inr weather"
      and r: "getitem weather ''rainfall'' = Inr rainfall"
      and s: "set wind_lines \<subseteq> {strong_winds_line, breezy_line}"
      and m: "sample_message heavy_rain_line
                = before @ weather_section (rainfall_notice rainfall # wind_lines) @ after"
      and f: "filter (\<lambda>l. l \<in> set rainfall_notices) (rainfall_notice rainfall # wind_lines)
                = [rainfall_notice rainfall]"
      and h: "exceeds rainfall 10 \<longrightarrow>
                rainfall_notice rainfall = heavy_rain_line
                \<and> dry_conditions_line \<notin> set (rainfall_notice rainfall # wind_lines)"
      by blast
    from w have "weather = sample_weather (PInt 12)"
      by (simp add: sample_recommendation_def)
    with r have v: "rainfall = PInt 12" by (simp add: sample_weather_def)
    with notice have n: "rainfall_notice rainfall = heavy_rain_line" by simp
    from v have "exceeds rainfall 10" by simp
    with h have "dry_conditions_line \<notin> set (rainfall_notice rainfall # wind_lines)" by blast
    with s m f show ?thesis unfolding n by blast
  qed
  have delay: "\<exists>wind_lines before after.
         set wind_lines \<subseteq> {strong_winds_line, breezy_line}
       \<and> sample_message rain_expected_line
             = before @ weather_section (rain_expected_line # wind_lines) @ after
       \<and> filter (\<lambda>l. l \<in> set rainfall_notices) (rain_expected_line # wind_lines) = [rain_expected_line]"
  proof -
    from rainfall_line [of offline_environment "sample_recommendation (PFloat 7.5)"
        "sample_message rain_expected_line", THEN conjunct1, rule_format, OF delay_message]
    obtain weather rainfall wind_lines before after where
        w: "getitem (PDict (sample_recommendation (PFloat 7.5))) ''weather'' = Inr weather"
      and r: "getitem weather ''rainfall'' = Inr rainfall"
      and s: "set wind_lines \<subseteq> {strong_winds_line, breezy_line}"
      and m: "sample_message rain_expected_line
                = before @ weather_section (rainfall_notice rainfall # wind_lines) @ after"
      and f: "filter (\<lambda>l. l \<in> set rainfall_notices) (rainfall_notice rainfall # wind_lines)
                = [rainfall_notice rainfall]"
      and h: "exceeds rainfall 10 \<longrightarrow>
                rainfall_notice rainfall = heavy_rain_line
                \<and> dry_conditions_line \<notin> set (rainfall_notice rainfall # wind_lines)"
      by blast
    from w have "weather = sample_weather (PFloat 7.5)"
      by (simp add: sample_recommendation_def)
    with r have v: "rainfall = PFloat 7.5" by (simp add: sample_weather_def)
    with notice have n: "rainfall_notice rainfall = rain_expected_line" by simp
    from s m f show ?thesis unfolding n by blast
  qed
  have dry: "\<exists>wind_lines before after.
         set wind_lines \<subseteq> {strong_winds_line, breezy_line}
       \<and> sample_message dry_conditions_line
             = before @ weather_section (dry_conditions_line # wind_lines) @ after
       \<and> filter (\<lambda>l. l \<in> set rainfall_notices) (dry_conditions_line # wind_lines) = [dry_conditions_line]"
  proof -
    from rainfall_line [of offline_environment "sample_recommendation (PInt 0)"
        "sample_message dry_conditions_line", THEN conjunct1, rule_format, OF dry_message]
    obtain weather rainfall wind_lines before after where
        w: "getitem (PDict (sample_recommendation (PInt 0))) ''weather'' = Inr weather"
      and r: "getitem weather ''rainfall'' = Inr rainfall"
      and s: "set wind_lines \<subseteq> {strong_winds_line, breezy_line}"
      and m: "sample_message dry_conditions_line
                = before @ weather_section (rainfall_notice rainfall # wind_lines) @ after"
      and f: "filter (\<lambda>l. l \<in> set rainfall_notices) (rainfall_notice rainfall # wind_lines)
                = [rainfall_notice rainfall]"
      and h: "exceeds rainfall 10 \<longrightarrow>
                rainfall_notice rainfall = heavy_rain_line
                \<and> dry_conditions_line \<notin> set (rainfall_notice rainfall # wind_lines)"
      by blast
    from w have "weather = sample_weather (PInt 0)"
      by (simp add: sample_recommendation_def)
    with r have v: "rainfall = PInt 0" by (simp add: sample_weather_def)
    with notice have n: "rainfall_notice rainfall = dry_conditions_line" by simp
    from s m f show ?thesis unfolding n by blast
  qed
  from readings notice heavy_message delay_message dry_message sec heavy delay dry show ?thesis
    by (intro conjI)

qed

text \<open>
  Claim C9 says that the rainfall section has exactly one of the three lines for every
  weather snapshot.  The adapter copies the provider's \<^verbatim>\<open>rain.1h\<close> into the snapshot as it
  is.  When the provider sends \<^verbatim>\<open>null\<close> there, the adapter returns a snapshot with status ok
  whose rainfall is \<^verbatim>\<open>None\<close>, the engine builds the recommendation around it, and the
  renderer raises \<^verbatim>\<open>TypeError\<close> at its first test \<^verbatim>\<open>weather['rainfall'] > 10\<close>: no advisory, and
  so none of the three lines; the endpoint answers with status 500.
\<close>

theorem null_rainfall_not_rendered:
  "fst (get_weather_data null_rain_environment (Place (Some ''Delhi'')) fresh_state) =
     [(''status'', PStr ''ok''), (''temperature'', PInt 30), (''rainfall'', PNone),
      (''humidity'', PInt 60), (''wind_speed'', PFloat 3.5), (''soil_temp'', PInt 28),
      (''soil_moisture'', PInt 70)]
   \<and> is_ok_snapshot
        (fst (get_weather_data null_rain_environment (Place (Some ''Delhi'')) fresh_state))
   \<and> fst (fertilizer_recommendation null_rain_environment ''Red'' ''Rice'' 1000 1 False None None
          (Some ''Delhi'') fresh_state) =
       [(''fertilizers'', PList [PStr ''Urea'', PStr ''Single Super Phosphate'',
                                  PStr ''Muriate of Potash'']),
        (''land_size_m2'', PFloat 1000),
        (''fallow_years'', PInt 1),
        (''weather'', PDict [(''status'', PStr ''ok''), (''temperature'', PInt 30),
           (''rainfall'', PNone), (''humidity'', PInt 60), (''wind_speed'', PFloat 3.5),
           (''soil_temp'', PInt 28), (''soil_moisture'', PInt 70)])]
   \<and> generate_farmer_message null_rain_environment
        (fst (fertilizer_recommendation null_rain_environment ''Red'' ''Rice'' 1000 1 False None
           None (Some ''Delhi'') fresh_state)) =
       Inl (TypeError (quoted ''>'' @ '' not supported between instances of ''
                       @ quoted ''NoneType'' @ '' and '' @ quoted ''int''))
   \<and> fst (get_recommendation null_rain_environment ''Red'' ''Rice'' 1000 1 False None None
          (Some ''Delhi'') fresh_state) =
       Inl (HTTPException 500
              (PStr (quoted ''>'' @ '' not supported between instances of ''
                     @ quoted ''NoneType'' @ '' and '' @ quoted ''int'')))"
proof -
  have s: "snapshot_of null_rain_payload =
     Inr [(''status'', PStr ''ok''), (''temperature'', PInt 30), (''rainfall'', PNone),
          (''humidity'', PInt 60), (''wind_speed'', PFloat 3.5), (''soil_temp'', PInt 28),
          (''soil_moisture'', PInt 70)]"
    by (simp add: snapshot_of_def null_rain_payload_def max_int_def min_int_def)
  have "fst (get_weather_data null_rain_environment (Place (Some ''Delhi'')) fresh_state) =
     [(''status'', PStr ''ok''), (''temperature'', PInt 30), (''rainfall'', PNone),
      (''humidity'', PInt 60), (''wind_speed'', PFloat 3.5), (''soil_temp'', PInt 28),
      (''soil_moisture'', PInt 70)]"
    by (simp add: get_weather_data_def fresh_state_def get_weather_data_wrapped_def try_block_def
          null_rain_environment_def Let_def s)
  then obtain st' where
    g: "get_weather_data null_rain_environment (Place (Some ''Delhi'')) fresh_state =
     ([(''status'', PStr ''ok''), (''temperature'', PInt 30), (''rainfall'', PNone),
       (''humidity'', PInt 60), (''wind_speed'', PFloat 3.5), (''soil_temp'', PInt 28),
       (''soil_moisture'', PInt 70)], st')"
    by (cases "get_weather_data null_rain_environment (Place (Some ''Delhi'')) fresh_state") simp
  have w: "resolve_weather null_rain_environment False None None (Some ''Delhi'') fresh_state
            = get_weather_data null_rain_environment (Place (Some ''Delhi'')) fresh_state"
    by (simp add: resolve_weather_def truthy_str_def truthy_float_def null_rain_environment_def)
  have r: "fertilizer_recommendation null_rain_environment ''Red'' ''Rice'' 1000 1 False None None
          (Some ''Delhi'') fresh_state =
       ([(''fertilizers'', PList [PStr ''Urea'', PStr ''Single Super Phosphate'',
                                   PStr ''Muriate of Potash'']),
         (''land_size_m2'', PFloat 1000),
         (''fallow_years'', PInt 1),
         (''weather'', PDict [(''status'', PStr ''ok''), (''temperature'', PInt 30),
            (''rainfall'', PNone), (''humidity'', PInt 60), (''wind_speed'', PFloat 3.5),
            (''soil_temp'', PInt 28), (''soil_moisture'', PInt 70)])], st')"
    by (simp add: fertilizer_recommendation_def filtered_Red_Rice w g dict_get_def
          fertilizers_of_eq)
  have m: "generate_farmer_message null_rain_environment
       [(''fertilizers'', PList [PStr ''Urea'', PStr ''Single Super Phosphate'',
                                  PStr ''Muriate of Potash'']),
        (''land_size_m2'', PFloat 1000),
        (''fallow_years'', PInt 1),
        (''weather'', PDict [(''status'', PStr ''ok''), (''temperature'', PInt 30),
           (''rainfall'', PNone), (''humidity'', PInt 60), (''wind_speed'', PFloat 3.5),
           (''soil_temp'', PInt 28), (''soil_moisture'', PInt 70)])] =
       Inl (TypeError (quoted ''>'' @ '' not supported between instances of ''
                       @ quoted ''NoneType'' @ '' and '' @ quoted ''int''))"
    by (simp add: generate_farmer_message_def weather_advice_def rainfall_advice_def
          not_supported_def)
  have e: "fst (get_recommendation null_rain_environment ''Red'' ''Rice'' 1000 1 False None None
          (Some ''Delhi'') fresh_state) =
       Inl (HTTPException 500
              (PStr (quoted ''>'' @ '' not supported between instances of ''
                     @ quoted ''NoneType'' @ '' and '' @ quoted ''int'')))"
    using m by (simp add: get_recommendation_def r handler_try_block_def)
  have ok: "is_ok_snapshot
        (fst (get_weather_data null_rain_environment (Place (Some ''Delhi'')) fresh_state))"
    using g by (simp add: is_ok_snapshot_def snapshot_keys_def)
  from g r m e ok show ?thesis by simp
qed

end
